theory Spec2Isabelle
  imports Complex_Main "HOL-Library.AList"
begin

section \<open>Numbers of the source language\<close>

text \<open>
  The program is TypeScript; every number is an IEEE double.  The code under study
  initialises accumulators with \<open>Infinity\<close>, tests \<open>isFinite\<close>, divides by
  differences that may be zero and relies on \<open>NaN\<close> being falsy, so the special values
  are part of the model.  Finite values are idealised as exact reals: rounding, overflow
  of finite arithmetic and the sign of zero are not modelled.
\<close>

datatype jsnum = NaN | NegInf | Fin real | PosInf

fun isFinite :: "jsnum \<Rightarrow> bool" where
  "isFinite (Fin r) = True"
| "isFinite v = False"

text \<open>\<open>a < b\<close>; false as soon as an operand is \<open>NaN\<close>.\<close>

fun js_less :: "jsnum \<Rightarrow> jsnum \<Rightarrow> bool" where
  "js_less NaN b = False"
| "js_less a NaN = False"
| "js_less PosInf b = False"
| "js_less a NegInf = False"
| "js_less NegInf b = True"
| "js_less a PosInf = True"
| "js_less (Fin a) (Fin b) = (a < b)"

text \<open>\<open>a <= b\<close>.\<close>

fun js_le :: "jsnum \<Rightarrow> jsnum \<Rightarrow> bool" where
  "js_le NaN b = False"
| "js_le a NaN = False"
| "js_le NegInf b = True"
| "js_le a PosInf = True"
| "js_le PosInf b = False"
| "js_le a NegInf = False"
| "js_le (Fin a) (Fin b) = (a \<le> b)"

text \<open>\<open>a > b\<close> is \<open>b < a\<close>.\<close>

definition js_greater :: "jsnum \<Rightarrow> jsnum \<Rightarrow> bool" where
  "js_greater a b = js_less b a"

fun js_neg :: "jsnum \<Rightarrow> jsnum" where
  "js_neg NaN = NaN"
| "js_neg NegInf = PosInf"
| "js_neg PosInf = NegInf"
| "js_neg (Fin a) = Fin (- a)"

fun js_add :: "jsnum \<Rightarrow> jsnum \<Rightarrow> jsnum" where
  "js_add NaN b = NaN"
| "js_add a NaN = NaN"
| "js_add PosInf NegInf = NaN"
| "js_add NegInf PosInf = NaN"
| "js_add PosInf b = PosInf"
| "js_add a PosInf = PosInf"
| "js_add NegInf b = NegInf"
| "js_add a NegInf = NegInf"
| "js_add (Fin a) (Fin b) = Fin (a + b)"

definition js_sub :: "jsnum \<Rightarrow> jsnum \<Rightarrow> jsnum" where
  "js_sub a b = js_add a (js_neg b)"

text \<open>The sign of a number that is not \<open>NaN\<close>: -1, 0 or 1.\<close>

fun js_sign :: "jsnum \<Rightarrow> int" where
  "js_sign NaN = 0"
| "js_sign NegInf = - 1"
| "js_sign PosInf = 1"
| "js_sign (Fin a) = (if a < 0 then - 1 else if a = 0 then 0 else 1)"

definition signed_inf :: "int \<Rightarrow> jsnum" where
  "signed_inf s = (if s < 0 then NegInf else if s = 0 then NaN else PosInf)"

text \<open>\<open>a * b\<close>: an infinity times zero is \<open>NaN\<close>.\<close>

fun js_mul :: "jsnum \<Rightarrow> jsnum \<Rightarrow> jsnum" where
  "js_mul NaN b = NaN"
| "js_mul a NaN = NaN"
| "js_mul (Fin a) (Fin b) = Fin (a * b)"
| "js_mul a b = signed_inf (js_sign a * js_sign b)"

text \<open>
  \<open>a / b\<close>: a finite non-zero number over zero is an infinity, zero over zero and
  infinity over infinity are \<open>NaN\<close>, a finite number over an infinity is zero.
\<close>

fun js_div :: "jsnum \<Rightarrow> jsnum \<Rightarrow> jsnum" where
  "js_div NaN b = NaN"
| "js_div a NaN = NaN"
| "js_div (Fin a) (Fin b) = (if b = 0 then signed_inf (js_sign (Fin a)) else Fin (a / b))"
| "js_div (Fin a) b = Fin 0"
| "js_div a (Fin b) = signed_inf (js_sign a * (if b < 0 then - 1 else 1))"
| "js_div a b = NaN"

text \<open>\<open>Math.max\<close> of two numbers: \<open>NaN\<close> as soon as an argument is.\<close>

fun Math_max2 :: "jsnum \<Rightarrow> jsnum \<Rightarrow> jsnum" where
  "Math_max2 NaN b = NaN"
| "Math_max2 a NaN = NaN"
| "Math_max2 a b = (if js_less a b then b else a)"

definition Math_max3 :: "jsnum \<Rightarrow> jsnum \<Rightarrow> jsnum \<Rightarrow> jsnum" where
  "Math_max3 a b c = Math_max2 (Math_max2 a b) c"

text \<open>\<open>Math.round\<close>: the nearest integer, a tie going up.\<close>

fun Math_round :: "jsnum \<Rightarrow> jsnum" where
  "Math_round (Fin a) = Fin (of_int \<lfloor>a + 1 / 2\<rfloor>)"
| "Math_round v = v"

text \<open>Strict equality \<open>a === b\<close> on numbers: \<open>NaN\<close> differs from itself.\<close>

definition js_eq :: "jsnum \<Rightarrow> jsnum \<Rightarrow> bool" where
  "js_eq a b = (a \<noteq> NaN \<and> b \<noteq> NaN \<and> a = b)"

text \<open>\<open>a || b\<close> on numbers: zero and \<open>NaN\<close> are falsy.\<close>

definition js_or :: "jsnum \<Rightarrow> jsnum \<Rightarrow> jsnum" where
  "js_or a b = (if a = NaN \<or> a = Fin 0 then b else a)"

section \<open>Vectors and bounding boxes\<close>

datatype Vector3 = Vector3 (vx: jsnum) (vy: jsnum) (vz: jsnum)

text \<open>
  \<open>Vector3.Minimize(left, right)\<close> copies \<open>left\<close> and takes a component of
  \<open>right\<close> where it is smaller; \<open>Maximize\<close> likewise.
\<close>

definition Minimize :: "Vector3 \<Rightarrow> Vector3 \<Rightarrow> Vector3" where
  "Minimize l r = Vector3 (if js_less (vx r) (vx l) then vx r else vx l)
                          (if js_less (vy r) (vy l) then vy r else vy l)
                          (if js_less (vz r) (vz l) then vz r else vz l)"

definition Maximize :: "Vector3 \<Rightarrow> Vector3 \<Rightarrow> Vector3" where
  "Maximize l r = Vector3 (if js_greater (vx r) (vx l) then vx r else vx l)
                          (if js_greater (vy r) (vy l) then vy r else vy l)
                          (if js_greater (vz r) (vz l) then vz r else vz l)"

definition Vector3_subtract :: "Vector3 \<Rightarrow> Vector3 \<Rightarrow> Vector3" where
  "Vector3_subtract a b = Vector3 (js_sub (vx a) (vx b)) (js_sub (vy a) (vy b)) (js_sub (vz a) (vz b))"

definition Vector3_add :: "Vector3 \<Rightarrow> Vector3 \<Rightarrow> Vector3" where
  "Vector3_add a b = Vector3 (js_add (vx a) (vx b)) (js_add (vy a) (vy b)) (js_add (vz a) (vz b))"

definition Vector3_scale :: "Vector3 \<Rightarrow> jsnum \<Rightarrow> Vector3" where
  "Vector3_scale a k = Vector3 (js_mul (vx a) k) (js_mul (vy a) k) (js_mul (vz a) k)"

text \<open>
  The bounding box of a mesh after \<open>refreshBoundingInfo\<close>: its corners in the
  mesh's own space and in world space.
\<close>

record BoundingBox =
  minimum :: Vector3
  maximum :: Vector3
  minimumWorld :: Vector3
  maximumWorld :: Vector3

record Bounds =
  bmin :: Vector3
  bmax :: Vector3

definition infinity3 :: Vector3 where
  "infinity3 = Vector3 PosInf PosInf PosInf"

definition neg_infinity3 :: Vector3 where
  "neg_infinity3 = Vector3 NegInf NegInf NegInf"

text \<open>
  The accumulation loop shared by the bounds functions:
  \<open>meshes.forEach(m => { min = Minimize(min, lo(m)); max = Maximize(max, hi(m)) })\<close>.
\<close>

fun accumulate :: "(Vector3 \<times> Vector3) list \<Rightarrow> Vector3 \<Rightarrow> Vector3 \<Rightarrow> Vector3 \<times> Vector3" where
  "accumulate [] mn mx = (mn, mx)"
| "accumulate ((lo, hi) # bs) mn mx = accumulate bs (Minimize mn lo) (Maximize mx hi)"

definition bounds_of :: "(Vector3 \<times> Vector3) list \<Rightarrow> Bounds option" where
  "bounds_of bs =
     (if length bs = 0 then None
      else let (mn, mx) = accumulate bs infinity3 neg_infinity3
           in if \<not> isFinite (vx mn) \<or> \<not> isFinite (vx mx) then None
              else Some \<lparr>bmin = mn, bmax = mx\<rparr>)"

text \<open>
  \<open>computeWorldBounds(node)\<close> of sceneControls and of SceneManager (the two are the
  same code) and \<open>SceneManager.computeLocalBounds(node)\<close>.  The argument is
  \<open>node.getChildMeshes(false)\<close>, each mesh given by its refreshed bounding box.
\<close>

definition computeWorldBounds :: "BoundingBox list \<Rightarrow> Bounds option" where
  "computeWorldBounds meshes = bounds_of (map (\<lambda>bi. (minimumWorld bi, maximumWorld bi)) meshes)"

definition computeLocalBounds :: "BoundingBox list \<Rightarrow> Bounds option" where
  "computeLocalBounds meshes = bounds_of (map (\<lambda>bi. (minimum bi, maximum bi)) meshes)"

section \<open>Transform nodes\<close>

text \<open>
  The position, the Euler rotation (in radians) and the scaling that a node of the scene
  graph, a mesh included, has relative to its parent.
\<close>

record TransformNode =
  node_position :: Vector3
  node_rotation :: Vector3
  node_scaling :: Vector3

text \<open>\<open>new TransformNode(...)\<close>: at the origin, not rotated, not scaled.\<close>

definition new_TransformNode :: TransformNode where
  "new_TransformNode =
     \<lparr>node_position = Vector3 (Fin 0) (Fin 0) (Fin 0),
      node_rotation = Vector3 (Fin 0) (Fin 0) (Fin 0),
      node_scaling = Vector3 (Fin 1) (Fin 1) (Fin 1)\<rparr>"

section \<open>UV repair\<close>

text \<open>
  The texture-coordinate channels of a mesh, in the order of \<open>UV_KIND_ORDER\<close>.
\<close>

datatype UVChannel = UVKind | UV2Kind | UV3Kind | UV4Kind | UV5Kind | UV6Kind

definition UV_KIND_ORDER :: "UVChannel list" where
  "UV_KIND_ORDER = [UVKind, UV2Kind, UV3Kind, UV4Kind, UV5Kind, UV6Kind]"

text \<open>
  A mesh as the loader sees it.  The position buffer holds three numbers per vertex and
  is kept as the list of its vertices; the loops of the source step through it by three
  and read \<open>positions[i]\<close> and \<open>positions[i + 2]\<close>, the \<open>x\<close> and \<open>z\<close> of
  a vertex.  A texture-coordinate buffer is a flat list of numbers.  An absent buffer
  (\<open>getVerticesData\<close> returning \<open>null\<close>) is \<open>None\<close>.  A mesh is a node of
  the scene graph too: \<open>mesh_node\<close> is its own position, rotation and scaling, which
  it keeps when it is given another parent.
\<close>

record AbstractMesh =
  totalVertices :: nat
  positions :: "Vector3 list option"
  uvData :: "UVChannel \<Rightarrow> jsnum list option"
  boundingBox :: BoundingBox
  isPickable :: bool
  mesh_node :: TransformNode

definition isVerticesDataPresent_Position :: "AbstractMesh \<Rightarrow> bool" where
  "isVerticesDataPresent_Position mesh = (positions mesh \<noteq> None)"

definition getVerticesData :: "AbstractMesh \<Rightarrow> UVChannel \<Rightarrow> jsnum list option" where
  "getVerticesData mesh kind = uvData mesh kind"

definition setVerticesData :: "AbstractMesh \<Rightarrow> UVChannel \<Rightarrow> jsnum list \<Rightarrow> AbstractMesh" where
  "setVerticesData mesh kind data = mesh\<lparr>uvData := (uvData mesh)(kind := Some data)\<rparr>"

text \<open>
  The fallback loop over \<open>UV_KIND_ORDER.slice(1)\<close>: the first channel that is
  present and not empty.
\<close>

fun first_alt :: "AbstractMesh \<Rightarrow> UVChannel list \<Rightarrow> jsnum list option" where
  "first_alt mesh [] = None"
| "first_alt mesh (kind # kinds) =
     (case getVerticesData mesh kind of
        Some alt \<Rightarrow> if length alt > 0 then Some alt else first_alt mesh kinds
      | None \<Rightarrow> first_alt mesh kinds)"

text \<open>The test of \<open>uvs.some(v => !isFinite(v) || v < -1 || v > 10)\<close>.\<close>

definition uv_invalid :: "jsnum \<Rightarrow> bool" where
  "uv_invalid v = (\<not> isFinite v \<or> js_less v (Fin (- 1)) \<or> js_greater v (Fin 10))"

definition needsFix :: "jsnum list option \<Rightarrow> bool" where
  "needsFix uvs = (case uvs of None \<Rightarrow> True | Some a \<Rightarrow> list_ex uv_invalid a)"

text \<open>The first loop over the positions: the running \<open>minX, maxX, minZ, maxZ\<close>.\<close>

record Extents =
  minX :: jsnum
  maxX :: jsnum
  minZ :: jsnum
  maxZ :: jsnum

fun scan_extents :: "Vector3 list \<Rightarrow> Extents \<Rightarrow> Extents" where
  "scan_extents [] e = e"
| "scan_extents (p # ps) e =
     scan_extents ps
       \<lparr>minX = (if js_less (vx p) (minX e) then vx p else minX e),
        maxX = (if js_greater (vx p) (maxX e) then vx p else maxX e),
        minZ = (if js_less (vz p) (minZ e) then vz p else minZ e),
        maxZ = (if js_greater (vz p) (maxZ e) then vz p else maxZ e)\<rparr>"

definition initial_extents :: Extents where
  "initial_extents = \<lparr>minX = PosInf, maxX = NegInf, minZ = PosInf, maxZ = NegInf\<rparr>"

text \<open>\<open>const rangeX = maxX - minX || 1\<close>, likewise for Z.\<close>

definition rangeX :: "Extents \<Rightarrow> jsnum" where
  "rangeX e = js_or (js_sub (maxX e) (minX e)) (Fin 1)"

definition rangeZ :: "Extents \<Rightarrow> jsnum" where
  "rangeZ e = js_or (js_sub (maxZ e) (minZ e)) (Fin 1)"

text \<open>The second loop: two numbers per vertex.\<close>

definition vertexUV :: "Extents \<Rightarrow> Vector3 \<Rightarrow> jsnum list" where
  "vertexUV e p = [js_div (js_sub (vx p) (minX e)) (rangeX e),
                   js_div (js_sub (vz p) (minZ e)) (rangeZ e)]"

definition newUVs :: "Vector3 list \<Rightarrow> jsnum list" where
  "newUVs ps = concat (map (vertexUV (scan_extents ps initial_extents)) ps)"

text \<open>
  The body of \<open>meshesWithGeom.forEach(mesh => ...)\<close> under the comment
  \<open>Repair UVs if they look invalid\<close>; the mesh is returned updated.
\<close>

definition repairUVs :: "AbstractMesh \<Rightarrow> AbstractMesh" where
  "repairUVs mesh =
     (if \<not> isVerticesDataPresent_Position mesh then mesh
      else
        let (mesh1, uvs) =
              (case getVerticesData mesh UVKind of
                 Some u \<Rightarrow> (mesh, Some u)
               | None \<Rightarrow>
                   (case first_alt mesh (tl UV_KIND_ORDER) of
                      Some alt \<Rightarrow> (setVerticesData mesh UVKind alt, Some alt)
                    | None \<Rightarrow> (mesh, None)))
        in if needsFix uvs then
             (case positions mesh1 of
                None \<Rightarrow> mesh1
              | Some ps \<Rightarrow> setVerticesData mesh1 UVKind (newUVs ps))
           else mesh1)"

section \<open>Scene graph\<close>

text \<open>
  What a loader registers under a model's name: the anchor node, the nodes it puts
  between the anchor and the meshes (outermost first), and the meshes of the asset that
  end up below them.
\<close>

record Anchored =
  anchor :: TransformNode
  descendants :: "TransformNode list"
  content :: "AbstractMesh list"

text \<open>
  Modelled from the spec: the engine's scene graph (how a parented transform node places
  its children in world space, and how a mesh's world bounding box follows from it) is
  not part of the source.  Per the spec an anchor owns a scale node which owns an offset
  node which owns the mesh subtree, the anchor carrying the position and the Euler
  rotation in radians.  A node maps a point of its own frame to its parent's frame by
  scaling, then rotating (roll about Z, pitch about X, yaw about Y), then translating;
  the world bounding box of a mesh is the axis-aligned box around the eight corners of
  its box carried to world space.
\<close>

fun js_sin :: "jsnum \<Rightarrow> jsnum" where
  "js_sin (Fin a) = Fin (sin a)"
| "js_sin v = NaN"

fun js_cos :: "jsnum \<Rightarrow> jsnum" where
  "js_cos (Fin a) = Fin (cos a)"
| "js_cos v = NaN"

definition rotateX :: "jsnum \<Rightarrow> Vector3 \<Rightarrow> Vector3" where
  "rotateX a p = Vector3 (vx p)
                         (js_sub (js_mul (vy p) (js_cos a)) (js_mul (vz p) (js_sin a)))
                         (js_add (js_mul (vy p) (js_sin a)) (js_mul (vz p) (js_cos a)))"

definition rotateY :: "jsnum \<Rightarrow> Vector3 \<Rightarrow> Vector3" where
  "rotateY a p = Vector3 (js_add (js_mul (vx p) (js_cos a)) (js_mul (vz p) (js_sin a)))
                         (vy p)
                         (js_sub (js_mul (vz p) (js_cos a)) (js_mul (vx p) (js_sin a)))"

definition rotateZ :: "jsnum \<Rightarrow> Vector3 \<Rightarrow> Vector3" where
  "rotateZ a p = Vector3 (js_sub (js_mul (vx p) (js_cos a)) (js_mul (vy p) (js_sin a)))
                         (js_add (js_mul (vx p) (js_sin a)) (js_mul (vy p) (js_cos a)))
                         (vz p)"

definition toParent :: "TransformNode \<Rightarrow> Vector3 \<Rightarrow> Vector3" where
  "toParent n p =
     (let s = node_scaling n; r = node_rotation n;
          scaled = Vector3 (js_mul (vx s) (vx p)) (js_mul (vy s) (vy p)) (js_mul (vz s) (vz p))
      in Vector3_add (node_position n) (rotateY (vy r) (rotateX (vx r) (rotateZ (vz r) scaled))))"

text \<open>The nodes are listed outermost first, so the innermost acts first.\<close>

definition toWorld :: "TransformNode list \<Rightarrow> Vector3 \<Rightarrow> Vector3" where
  "toWorld nodes p = foldr toParent nodes p"

definition corners :: "Vector3 \<times> Vector3 \<Rightarrow> Vector3 list" where
  "corners b =
     (let lo = fst b; hi = snd b
      in [Vector3 (vx lo) (vy lo) (vz lo), Vector3 (vx hi) (vy lo) (vz lo),
          Vector3 (vx lo) (vy hi) (vz lo), Vector3 (vx hi) (vy hi) (vz lo),
          Vector3 (vx lo) (vy lo) (vz hi), Vector3 (vx hi) (vy lo) (vz hi),
          Vector3 (vx lo) (vy hi) (vz hi), Vector3 (vx hi) (vy hi) (vz hi)])"

definition worldBox :: "TransformNode list \<Rightarrow> Vector3 \<times> Vector3 \<Rightarrow> Vector3 \<times> Vector3" where
  "worldBox nodes b =
     accumulate (map (\<lambda>c. (toWorld nodes c, toWorld nodes c)) (corners b)) infinity3 neg_infinity3"

definition refreshBoundingInfo :: "TransformNode list \<Rightarrow> Vector3 \<times> Vector3 \<Rightarrow> BoundingBox \<Rightarrow> BoundingBox" where
  "refreshBoundingInfo nodes b bi =
     bi\<lparr>minimumWorld := fst (worldBox nodes b), maximumWorld := snd (worldBox nodes b)\<rparr>"

section \<open>Camera\<close>

record Camera =
  target :: Vector3
  radius :: jsnum

text \<open>
  Modelled from the spec: the engine's orbit camera is not part of the source.  Per the
  spec the camera state is a target point and a radius, the distance of the camera from
  its target.  \<open>setTarget\<close> makes its argument the target.  The radius that the
  engine leaves after the call is given neither by the source nor by the spec (a camera
  that stays where it is while its target moves has another distance to the new target):
  it is the parameter \<open>rebuild\<close>, a function of the camera before the call and of
  the new target.
\<close>

type_synonym Rebuild = "Camera \<Rightarrow> Vector3 \<Rightarrow> jsnum"

definition setTarget :: "Rebuild \<Rightarrow> Camera \<Rightarrow> Vector3 \<Rightarrow> Camera" where
  "setTarget rebuild cam v = cam\<lparr>target := v, radius := rebuild cam v\<rparr>"

section \<open>The loader of CanvasHost\<close>

record ModelConfig =
  name :: string
  cfg_file :: string
  rotation :: "(jsnum \<times> jsnum \<times> jsnum) option"
  position :: "(jsnum \<times> jsnum \<times> jsnum) option"
  pickable :: "bool option"
  fitSize :: "jsnum option"

text \<open>
  The asset container the glTF loader returns; only its meshes matter here (materials
  concern shading).  The loader itself is a parameter: \<open>None\<close> stands for a rejected
  promise, which the \<open>try\<close> around the loop body swallows.
\<close>

record AssetContainer =
  meshes :: "AbstractMesh list"

type_synonym Loader = "string \<Rightarrow> AssetContainer option"

type_synonym Registry = "(string \<times> Anchored) list"

definition assetPath :: "ModelConfig \<Rightarrow> string" where
  "assetPath cfg = ''/assets/'' @ cfg_file cfg"

definition worldCorners :: "AbstractMesh \<Rightarrow> Vector3 \<times> Vector3" where
  "worldCorners m = (minimumWorld (boundingBox m), maximumWorld (boundingBox m))"

definition localCorners :: "AbstractMesh \<Rightarrow> Vector3 \<times> Vector3" where
  "localCorners m = (minimum (boundingBox m), maximum (boundingBox m))"

definition hasGeometry :: "AbstractMesh \<Rightarrow> bool" where
  "hasGeometry m = (totalVertices m > 0)"

text \<open>
  The part of the loop body from \<open>Compute world bounds\<close> to the reparenting: the
  anchor, the scaler and the offset of a model, from the bounds accumulated over the
  meshes with geometry.
\<close>

definition canvasNodes :: "ModelConfig \<Rightarrow> AbstractMesh list \<Rightarrow> TransformNode \<times> TransformNode \<times> TransformNode" where
  "canvasNodes cfg meshesWithGeom =
     (let (mn, mx) = accumulate (map worldCorners meshesWithGeom) infinity3 neg_infinity3;
          rawSize = Vector3_subtract mx mn;
          maxDim = Math_max3 (vx rawSize) (vy rawSize) (vz rawSize);
          rawCenter = Vector3_scale (Vector3_add mn mx) (Fin (1 / 2));
          targetSize = (case fitSize cfg of Some v \<Rightarrow> v | None \<Rightarrow> Fin 30);
          scl = js_div targetSize maxDim;
          (px, py, pz) = (case position cfg of Some p \<Rightarrow> p | None \<Rightarrow> (Fin 0, Fin 0, Fin 0));
          (rx, ry, rz) = (case rotation cfg of Some r \<Rightarrow> r | None \<Rightarrow> (Fin 0, Fin 0, Fin 0));
          anchorNode = new_TransformNode
            \<lparr>node_position := Vector3 px py pz, node_rotation := Vector3 rx ry rz\<rparr>;
          scaler = new_TransformNode\<lparr>node_scaling := Vector3 scl scl scl\<rparr>;
          offset = new_TransformNode
            \<lparr>node_position := Vector3 (js_neg (vx rawCenter)) (js_neg (vy mn)) (js_neg (vz rawCenter))\<rparr>
      in (anchorNode, scaler, offset))"

text \<open>
  One turn of \<open>for (const cfg of configs)\<close>.  The meshes with geometry have their
  texture coordinates repaired and are made pickable; all meshes of the container end up
  below the offset node.
\<close>

definition loadModel :: "Loader \<Rightarrow> ModelConfig \<Rightarrow> Registry \<Rightarrow> Registry" where
  "loadModel load cfg anchors =
     (case load (assetPath cfg) of
        None \<Rightarrow> anchors
      | Some container \<Rightarrow>
          let meshesWithGeom = filter hasGeometry (meshes container) in
          if length meshesWithGeom = 0 then anchors
          else
            let (anchorNode, scaler, offset) = canvasNodes cfg meshesWithGeom
            in AList.update (name cfg)
                 \<lparr>anchor = anchorNode, descendants = [scaler, offset],
                  content = map (\<lambda>m. if hasGeometry m
                                      then (repairUVs m)\<lparr>isPickable := (pickable cfg \<noteq> Some False)\<rparr>
                                      else m) (meshes container)\<rparr>
                 anchors)"

text \<open>
  \<open>loadModels\<close> of CanvasHost: the loop, then \<open>Frame camera to see models\<close>.
  The registry keeps the order in which names were first assigned, as the keys of a
  JavaScript object do.
\<close>

definition frameModels :: "Rebuild \<Rightarrow> Registry \<Rightarrow> Camera \<Rightarrow> Camera" where
  "frameModels rebuild anchors camera =
     (let n = length anchors;
          sumX = foldl (\<lambda>s e. js_add s (vx (node_position (anchor (snd e))))) (Fin 0) anchors;
          sumZ = foldl (\<lambda>s e. js_add s (vz (node_position (anchor (snd e))))) (Fin 0) anchors;
          camera1 = (if n > 0
                     then setTarget rebuild camera
                            (Vector3 (js_div sumX (Fin (real n))) (Fin 20) (js_div sumZ (Fin (real n))))
                     else camera)
      in camera1\<lparr>radius := Fin 150\<rparr>)"

definition loadModels :: "Rebuild \<Rightarrow> Loader \<Rightarrow> ModelConfig list \<Rightarrow> Camera \<Rightarrow> Registry \<Rightarrow> Registry \<times> Camera" where
  "loadModels rebuild load configs camera anchors =
     (let anchors1 = foldl (\<lambda>a cfg. loadModel load cfg a) anchors configs
      in (anchors1, frameModels rebuild anchors1 camera))"


section \<open>SceneManager\<close>

text \<open>
  The state of a \<open>SceneManager\<close> that loading and framing touch: whether the scene
  exists, the camera if any, the anchors (the \<open>groups\<close> registry holds the node that
  is the single descendant of each anchor here), and the messages given to
  \<open>onError\<close>.
\<close>

record SceneManager =
  sm_scene :: bool
  sm_camera :: "Camera option"
  sm_anchors :: Registry
  sm_reported :: "string list"

text \<open>
  From \<open>rawSize\<close> to \<open>group.position.set\<close>: the anchor and the group of a model
  whose raw bounds are known.
\<close>

definition managerNodes :: "ModelConfig \<Rightarrow> Bounds \<Rightarrow> TransformNode \<times> TransformNode" where
  "managerNodes cfg rawBounds =
     (let rawSize = Vector3_subtract (bmax rawBounds) (bmin rawBounds);
          maxDim = Math_max3 (vx rawSize) (vy rawSize) (vz rawSize);
          targetSize = (case fitSize cfg of Some v \<Rightarrow> v | None \<Rightarrow> Fin 30);
          scl = js_div targetSize maxDim;
          rawCenter = Vector3_scale (Vector3_add (bmin rawBounds) (bmax rawBounds)) (Fin (1 / 2));
          (px, py, pz) = (case position cfg of Some p \<Rightarrow> p | None \<Rightarrow> (Fin 0, Fin 0, Fin 0));
          (rx, ry, rz) = (case rotation cfg of Some r \<Rightarrow> r | None \<Rightarrow> (Fin 0, Fin 0, Fin 0));
          anchorNode = new_TransformNode\<lparr>node_position := Vector3 px py pz\<rparr>;
          scaledCenter = Vector3_scale rawCenter scl;
          scaledMinY = js_mul (vy (bmin rawBounds)) scl;
          group = new_TransformNode
            \<lparr>node_position := Vector3 (js_neg (vx scaledCenter)) (js_neg scaledMinY) (js_neg (vz scaledCenter)),
             node_rotation := Vector3 rx ry rz,
             node_scaling := Vector3 scl scl scl\<rparr>
      in (anchorNode, group))"

text \<open>
  The registry \<open>this.anchors\<close> is a plain object, so \<open>this.anchors[cfg.name]\<close>
  also finds the properties that every object inherits from \<open>Object.prototype\<close>.
  Each of them is a function or an object, so the test at the head of the loop succeeds
  for these names although nothing was registered under them.
\<close>

definition Object_prototype_keys :: "string list" where
  "Object_prototype_keys =
     [''constructor'', ''__defineGetter__'', ''__defineSetter__'', ''hasOwnProperty'',
      ''__lookupGetter__'', ''__lookupSetter__'', ''isPrototypeOf'', ''propertyIsEnumerable'',
      ''toString'', ''valueOf'', ''__proto__'', ''toLocaleString'']"

text \<open>One turn of the loop of \<open>SceneManager.loadModels\<close>.\<close>

definition SceneManager_loadModel :: "Loader \<Rightarrow> ModelConfig \<Rightarrow> SceneManager \<Rightarrow> SceneManager" where
  "SceneManager_loadModel load cfg sm =
     (if name cfg \<in> set Object_prototype_keys \<or> map_of (sm_anchors sm) (name cfg) \<noteq> None then sm
      else
        case load (assetPath cfg) of
          None \<Rightarrow> sm\<lparr>sm_reported := sm_reported sm @ [''Failed to load '' @ name cfg]\<rparr>
        | Some container \<Rightarrow>
            (case computeLocalBounds (map boundingBox (meshes container)) of
               None \<Rightarrow> sm
             | Some rawBounds \<Rightarrow>
                 let (anchorNode, group) = managerNodes cfg rawBounds
                 in sm\<lparr>sm_anchors :=
                         AList.update (name cfg)
                           \<lparr>anchor = anchorNode, descendants = [group], content = meshes container\<rparr>
                           (sm_anchors sm)\<rparr>))"

text \<open>
  The meshes below a registered anchor with the world bounding boxes the scene graph
  gives them.  The loader makes the group the parent of every mesh (\<open>m.parent = group\<close>),
  and a mesh keeps its own position, rotation and scaling under its new parent: the
  corners of its box in mesh space pass through the mesh's own node, then the group,
  then the anchor.
\<close>

definition managerChildMeshes :: "Anchored \<Rightarrow> BoundingBox list" where
  "managerChildMeshes e =
     map (\<lambda>m. refreshBoundingInfo (anchor e # descendants e @ [mesh_node m]) (localCorners m)
                (boundingBox m))
         (content e)"

text \<open>
  \<open>SceneManager.frameAll\<close>.  The argument lists, for each registered anchor in
  turn, the child meshes of that anchor.
\<close>

fun unionBounds :: "Bounds option list \<Rightarrow> Vector3 \<Rightarrow> Vector3 \<Rightarrow> bool \<Rightarrow> Vector3 \<times> Vector3 \<times> bool" where
  "unionBounds [] mn mx hasModels = (mn, mx, hasModels)"
| "unionBounds (None # bs) mn mx hasModels = unionBounds bs mn mx hasModels"
| "unionBounds (Some b # bs) mn mx hasModels =
     unionBounds bs (Minimize mn (bmin b)) (Maximize mx (bmax b)) True"

definition frameAll :: "Rebuild \<Rightarrow> BoundingBox list list \<Rightarrow> Camera option \<Rightarrow> Camera option" where
  "frameAll rebuild anchorMeshes camera =
     (case camera of
        None \<Rightarrow> None
      | Some cam \<Rightarrow>
          let (mn, mx, hasModels) =
                unionBounds (map computeWorldBounds anchorMeshes) infinity3 neg_infinity3 False
          in if \<not> hasModels then
               Some ((setTarget rebuild cam (Vector3 (Fin 0) (Fin 10) (Fin 0)))\<lparr>radius := Fin 150\<rparr>)
             else
               let center = Vector3_scale (Vector3_add mn mx) (Fin (1 / 2));
                   size = Vector3_subtract mx mn;
                   r = js_mul (Math_max3 (vx size) (vy size) (vz size)) (Fin (3 / 2))
               in Some ((setTarget rebuild cam center)\<lparr>radius := Math_max2 r (Fin 100)\<rparr>))"

definition SceneManager_loadModels :: "Rebuild \<Rightarrow> Loader \<Rightarrow> ModelConfig list \<Rightarrow> SceneManager \<Rightarrow> SceneManager" where
  "SceneManager_loadModels rebuild load configs sm =
     (if \<not> sm_scene sm then sm\<lparr>sm_reported := sm_reported sm @ [''Scene not initialized'']\<rparr>
      else
        let sm1 = foldl (\<lambda>s cfg. SceneManager_loadModel load cfg s) sm configs
        in sm1\<lparr>sm_camera := frameAll rebuild (map (\<lambda>e. managerChildMeshes (snd e)) (sm_anchors sm1)) (sm_camera sm1)\<rparr>)"

section \<open>Hover controller\<close>

text \<open>
  The module-level variables \<open>isInteracting\<close>, \<open>interactionTimeout\<close> (here: whether
  a timer is pending) and \<open>lastHoveredMesh\<close>, together with what the handlers write:
  the set of meshes whose \<open>renderOutline\<close> flag is set, the set of meshes added to the
  highlight layer, and the cursor.  Meshes are compared by identity, so a mesh is any
  value of a type \<open>'m\<close> of mesh references.
\<close>

record 'm HoverState =
  isInteracting :: bool
  interactionTimeout :: bool
  lastHoveredMesh :: "'m option"
  renderOutline :: "'m set"
  layerMeshes :: "'m set"
  cursor :: string

definition initialHover :: "'m HoverState" where
  "initialHover =
     \<lparr>isInteracting = False, interactionTimeout = False, lastHoveredMesh = None,
      renderOutline = {}, layerMeshes = {}, cursor = ''default''\<rparr>"

definition setInteracting :: "bool \<Rightarrow> 'm HoverState \<Rightarrow> 'm HoverState" where
  "setInteracting active s =
     (if active then s\<lparr>isInteracting := True, interactionTimeout := False\<rparr>
      else s\<lparr>interactionTimeout := True\<rparr>)"

text \<open>The callback of the timer armed by \<open>setInteracting(false)\<close>.\<close>

definition timeoutFires :: "'m HoverState \<Rightarrow> 'm HoverState" where
  "timeoutFires s =
     (if interactionTimeout s then s\<lparr>isInteracting := False, interactionTimeout := False\<rparr> else s)"

text \<open>
  Removing and applying the marker, by the highlight layer when there is one
  (\<open>hl\<close>), by the outline flag otherwise.
\<close>

definition removeMarker :: "bool \<Rightarrow> 'm \<Rightarrow> 'm HoverState \<Rightarrow> 'm HoverState" where
  "removeMarker hl m s =
     (if hl then s\<lparr>layerMeshes := layerMeshes s - {m}\<rparr>
      else s\<lparr>renderOutline := renderOutline s - {m}\<rparr>)"

definition applyMarker :: "bool \<Rightarrow> 'm \<Rightarrow> 'm HoverState \<Rightarrow> 'm HoverState" where
  "applyMarker hl m s =
     (if hl then s\<lparr>layerMeshes := insert m (layerMeshes s)\<rparr>
      else s\<lparr>renderOutline := insert m (renderOutline s)\<rparr>)"

definition onPointerOver :: "bool \<Rightarrow> 'm \<Rightarrow> 'm HoverState \<Rightarrow> 'm HoverState" where
  "onPointerOver hl mesh s =
     (if isInteracting s then s
      else if lastHoveredMesh s = Some mesh then s
      else
        let s1 = (case lastHoveredMesh s of
                    Some l \<Rightarrow> if l \<noteq> mesh then removeMarker hl l s else s
                  | None \<Rightarrow> s);
            s2 = s1\<lparr>lastHoveredMesh := Some mesh\<rparr>;
            s3 = applyMarker hl mesh s2
        in s3\<lparr>cursor := ''pointer''\<rparr>)"

definition onPointerOut :: "bool \<Rightarrow> 'm \<Rightarrow> 'm HoverState \<Rightarrow> 'm HoverState" where
  "onPointerOut hl mesh s =
     (if isInteracting s then s
      else
        let s1 = (if lastHoveredMesh s = Some mesh then s\<lparr>lastHoveredMesh := None\<rparr> else s);
            s2 = removeMarker hl mesh s1
        in s2\<lparr>cursor := ''default''\<rparr>)"

text \<open>
  The events that reach the controller.  A pick only asks the camera to focus; the
  wheel handler calls \<open>setInteracting(true)\<close> then \<open>setInteracting(false)\<close>; pointer
  up and pointer leave share a handler.
\<close>

datatype 'm Event =
    PointerOver 'm | PointerOut 'm | Pick 'm
  | PointerDown | PointerUp | PointerLeave | Wheel | TimeoutFires

fun handle :: "bool \<Rightarrow> 'm HoverState \<Rightarrow> 'm Event \<Rightarrow> 'm HoverState" where
  "handle hl s (PointerOver m) = onPointerOver hl m s"
| "handle hl s (PointerOut m) = onPointerOut hl m s"
| "handle hl s (Pick m) = s"
| "handle hl s PointerDown = setInteracting True s"
| "handle hl s PointerUp = setInteracting False s"
| "handle hl s PointerLeave = setInteracting False s"
| "handle hl s Wheel = setInteracting False (setInteracting True s)"
| "handle hl s TimeoutFires = timeoutFires s"

definition run :: "bool \<Rightarrow> 'm Event list \<Rightarrow> 'm HoverState" where
  "run hl events = foldl (handle hl) initialHover events"

text \<open>The meshes that carry the hover marker, by either mechanism.\<close>

definition marked :: "'m HoverState \<Rightarrow> 'm set" where
  "marked s = renderOutline s \<union> layerMeshes s"

section \<open>Snapping the camera target\<close>

text \<open>\<open>applySnap\<close>, the callback on every change of the view matrix.\<close>

definition applySnap :: "Rebuild \<Rightarrow> jsnum \<Rightarrow> Camera \<Rightarrow> Camera" where
  "applySnap rebuild snap cam =
     (if js_le snap (Fin 0) then cam
      else
        let t = target cam;
            snappedX = js_mul (Math_round (js_div (vx t) snap)) snap;
            snappedZ = js_mul (Math_round (js_div (vz t) snap)) snap
        in if \<not> js_eq snappedX (vx t) \<or> \<not> js_eq snappedZ (vz t)
           then setTarget rebuild cam (Vector3 snappedX (vy t) snappedZ)
           else cam)"

section \<open>Notions used in the statements\<close>

text \<open>
  What the hover handlers maintain: the marked meshes are exactly the last hovered mesh,
  if any, and only the mechanism in use ever holds a mesh.
\<close>

definition hover_inv :: "bool \<Rightarrow> 'm HoverState \<Rightarrow> bool" where
  "hover_inv hl s =
     (marked s = set_option (lastHoveredMesh s) \<and>
      (if hl then renderOutline s = {} else layerMeshes s = {}))"

text \<open>
  The steps of the accumulation taken one component at a time, the real number behind a
  finite value, and vectors all of whose components are finite.
\<close>

definition lo_step :: "jsnum \<Rightarrow> jsnum \<Rightarrow> jsnum" where
  "lo_step a b = (if js_less b a then b else a)"

definition hi_step :: "jsnum \<Rightarrow> jsnum \<Rightarrow> jsnum" where
  "hi_step a b = (if js_greater b a then b else a)"

fun the_real :: "jsnum \<Rightarrow> real" where
  "the_real (Fin r) = r"
| "the_real v = 0"

definition finite3 :: "Vector3 \<Rightarrow> bool" where
  "finite3 v = (isFinite (vx v) \<and> isFinite (vy v) \<and> isFinite (vz v))"

text \<open>The smallest and the largest value of a coordinate over a list.\<close>

definition least :: "('a \<Rightarrow> jsnum) \<Rightarrow> 'a list \<Rightarrow> jsnum" where
  "least f xs = Fin (Min ((\<lambda>x. the_real (f x)) ` set xs))"

definition greatest :: "('a \<Rightarrow> jsnum) \<Rightarrow> 'a list \<Rightarrow> jsnum" where
  "greatest f xs = Fin (Max ((\<lambda>x. the_real (f x)) ` set xs))"

text \<open>
  The planar projection in real arithmetic: the extent of a coordinate over the
  vertices, the divisor the code uses for it, and the texture coordinate of a vertex.
\<close>

definition xr :: "Vector3 \<Rightarrow> real" where
  "xr p = the_real (vx p)"

definition zr :: "Vector3 \<Rightarrow> real" where
  "zr p = the_real (vz p)"

definition extent :: "(Vector3 \<Rightarrow> real) \<Rightarrow> Vector3 list \<Rightarrow> real" where
  "extent f ps = Max (f ` set ps) - Min (f ` set ps)"

definition divisor :: "(Vector3 \<Rightarrow> real) \<Rightarrow> Vector3 list \<Rightarrow> real" where
  "divisor f ps = (if extent f ps = 0 then 1 else extent f ps)"

definition planar :: "(Vector3 \<Rightarrow> real) \<Rightarrow> Vector3 list \<Rightarrow> Vector3 \<Rightarrow> real" where
  "planar f ps p = (f p - Min (f ` set ps)) / divisor f ps"

text \<open>
  The texture coordinates the validity test looks at: the primary channel, or the
  first non-empty channel after it when the primary one is absent.
\<close>

definition adoptedUVs :: "AbstractMesh \<Rightarrow> jsnum list option" where
  "adoptedUVs mesh =
     (case getVerticesData mesh UVKind of
        Some u \<Rightarrow> Some u
      | None \<Rightarrow> first_alt mesh (tl UV_KIND_ORDER))"

text \<open>
  Names for what the loaders read from a descriptor and compute from the measured
  boxes: the target size, the anchor position and rotation with their defaults, the
  largest raw dimension, and the entry the CanvasHost loader registers for a container.
\<close>

definition targetSize :: "ModelConfig \<Rightarrow> jsnum" where
  "targetSize cfg = (case fitSize cfg of Some v \<Rightarrow> v | None \<Rightarrow> Fin 30)"

definition anchorPosition :: "ModelConfig \<Rightarrow> jsnum \<times> jsnum \<times> jsnum" where
  "anchorPosition cfg = (case position cfg of Some p \<Rightarrow> p | None \<Rightarrow> (Fin 0, Fin 0, Fin 0))"

definition anchorRotation :: "ModelConfig \<Rightarrow> jsnum \<times> jsnum \<times> jsnum" where
  "anchorRotation cfg = (case rotation cfg of Some r \<Rightarrow> r | None \<Rightarrow> (Fin 0, Fin 0, Fin 0))"

definition rawMaxDim :: "(Vector3 \<times> Vector3) list \<Rightarrow> jsnum" where
  "rawMaxDim bs =
     (let rawSize = Vector3_subtract (snd (accumulate bs infinity3 neg_infinity3))
                                     (fst (accumulate bs infinity3 neg_infinity3))
      in Math_max3 (vx rawSize) (vy rawSize) (vz rawSize))"

definition canvasEntry :: "ModelConfig \<Rightarrow> AssetContainer \<Rightarrow> Anchored" where
  "canvasEntry cfg container =
     (let nodes = canvasNodes cfg (filter hasGeometry (meshes container))
      in \<lparr>anchor = fst nodes, descendants = [fst (snd nodes), snd (snd nodes)],
          content = map (\<lambda>m. if hasGeometry m
                              then (repairUVs m)\<lparr>isPickable := (pickable cfg \<noteq> Some False)\<rparr>
                              else m) (meshes container)\<rparr>)"

text \<open>
  The loader that answers every path with the same container, and a mesh with three
  vertices, no texture coordinates, a given box and no transform of its own, for the
  concrete cases below; \<open>grown\<close> is the cube with a scaling of 2 of its own.
\<close>

definition boxMesh :: "Vector3 \<Rightarrow> Vector3 \<Rightarrow> AbstractMesh" where
  "boxMesh lo hi =
     \<lparr>totalVertices = 3, positions = Some [lo, hi, lo], uvData = (\<lambda>k. None),
      boundingBox = \<lparr>minimum = lo, maximum = hi, minimumWorld = lo, maximumWorld = hi\<rparr>,
      isPickable = False, mesh_node = new_TransformNode\<rparr>"

definition always :: "AbstractMesh list \<Rightarrow> Loader" where
  "always ms path = Some \<lparr>meshes = ms\<rparr>"

definition cube :: AbstractMesh where
  "cube = boxMesh (Vector3 (Fin (- 1)) (Fin (- 1)) (Fin (- 1))) (Vector3 (Fin 1) (Fin 1) (Fin 1))"



definition point :: AbstractMesh where
  "point = boxMesh (Vector3 (Fin 1) (Fin 2) (Fin 3)) (Vector3 (Fin 1) (Fin 2) (Fin 3))"

definition descriptor :: "string \<Rightarrow> jsnum \<times> jsnum \<times> jsnum \<Rightarrow> jsnum \<times> jsnum \<times> jsnum \<Rightarrow> real \<Rightarrow> ModelConfig" where
  "descriptor nm pos rot fit =
     \<lparr>name = nm, cfg_file = nm @ ''.glb'', rotation = Some rot, position = Some pos,
      pickable = Some True, fitSize = Some (Fin fit)\<rparr>"

definition camera0 :: Camera where
  "camera0 = \<lparr>target = Vector3 (Fin 0) (Fin 20) (Fin 0), radius = Fin 150\<rparr>"

text \<open>
  Modelled from the spec: the radius of the orbit camera is the distance between the
  camera and its target.  For a camera that stays at \<open>p\<close> while its target moves, the
  radius that \<open>setTarget\<close> leaves is the distance from \<open>p\<close> to the new target.
  \<open>rebuild0\<close> is that of a camera 150 behind the target of \<open>camera0\<close>.
\<close>

fun js_sqrt :: "jsnum \<Rightarrow> jsnum" where
  "js_sqrt (Fin a) = (if a < 0 then NaN else Fin (sqrt a))"
| "js_sqrt PosInf = PosInf"
| "js_sqrt v = NaN"

definition Vector3_length :: "Vector3 \<Rightarrow> jsnum" where
  "Vector3_length v =
     js_sqrt (js_add (js_add (js_mul (vx v) (vx v)) (js_mul (vy v) (vy v))) (js_mul (vz v) (vz v)))"

definition stayingAt :: "Vector3 \<Rightarrow> Rebuild" where
  "stayingAt p cam v = Vector3_length (Vector3_subtract p v)"

definition rebuild0 :: Rebuild where
  "rebuild0 = stayingAt (Vector3 (Fin 0) (Fin 20) (Fin (- 150)))"

definition manager0 :: SceneManager where
  "manager0 = \<lparr>sm_scene = True, sm_camera = Some camera0, sm_anchors = [], sm_reported = []\<rparr>"













section \<open>Properties\<close>

subsection \<open>Hover controller\<close>

lemma hover_inv_initial: "hover_inv hl initialHover"
  by (simp add: hover_inv_def initialHover_def marked_def)

lemma hover_inv_over: "hover_inv hl s \<Longrightarrow> hover_inv hl (onPointerOver hl m s)"
  by (cases "lastHoveredMesh s")
     (auto simp: hover_inv_def onPointerOver_def removeMarker_def applyMarker_def marked_def Let_def)

lemma hover_inv_out: "hover_inv hl s \<Longrightarrow> hover_inv hl (onPointerOut hl m s)"
  by (cases "lastHoveredMesh s")
     (auto simp: hover_inv_def onPointerOut_def removeMarker_def marked_def Let_def)

lemma hover_inv_handle: "hover_inv hl s \<Longrightarrow> hover_inv hl (handle hl s e)"
  by (cases e)
     (simp_all add: hover_inv_over hover_inv_out,
      auto simp: hover_inv_def setInteracting_def timeoutFires_def marked_def split: if_splits)

lemma hover_inv_foldl: "hover_inv hl s \<Longrightarrow> hover_inv hl (foldl (handle hl) s es)"
  by (induction es arbitrary: s) (simp_all add: hover_inv_handle)

lemma hover_inv_run: "hover_inv hl (run hl es)"
  by (simp add: run_def hover_inv_foldl hover_inv_initial)

lemma run_snoc: "run hl (es @ [e]) = handle hl (run hl es) e"
  by (simp add: run_def)

lemma marked_after_over:
  "hover_inv hl s \<Longrightarrow> \<not> isInteracting s \<Longrightarrow> marked (onPointerOver hl m s) = {m}"
  by (cases "lastHoveredMesh s")
     (auto simp: hover_inv_def onPointerOver_def removeMarker_def applyMarker_def marked_def Let_def
           split: if_splits)

text \<open>
  C9.  After any sequence of pointer-over, pointer-out, pick, pointer-down, pointer-up,
  pointer-leave, wheel and timer events, with the highlight layer or with the outline
  fallback, at most one mesh carries the hover marker, and it is the last hovered mesh.
  A pointer-over on a mesh leaves that mesh as the only marked one unless the
  interacting flag is up, in which case nothing changes: whatever was marked before has
  been cleared.
\<close>

theorem hover_exclusive:
  "card (marked (run hl events)) \<le> 1
   \<and> marked (run hl events) = set_option (lastHoveredMesh (run hl events))
   \<and> marked (run hl (events @ [PointerOver m])) =
       (if isInteracting (run hl events) then marked (run hl events) else {m})"
proof -
  have inv: "hover_inv hl (run hl events)" by (rule hover_inv_run)
  then have eq: "marked (run hl events) = set_option (lastHoveredMesh (run hl events))"
    by (simp add: hover_inv_def)
  have "card (set_option (lastHoveredMesh (run hl events))) \<le> 1"
    by (cases "lastHoveredMesh (run hl events)") simp_all
  moreover have "marked (run hl (events @ [PointerOver m])) =
       (if isInteracting (run hl events) then marked (run hl events) else {m})"
    using marked_after_over[OF inv] by (simp add: run_snoc onPointerOver_def)
  ultimately show ?thesis using eq by simp
qed

theorem hover_exclusive_witness:
  "marked (run False [PointerOver (1::nat), PointerDown, PointerOut 1, PointerUp, TimeoutFires, PointerOver 2]) = {2}
   \<and> card (marked (run False [PointerOver (1::nat), PointerDown, PointerOut 1, PointerUp, TimeoutFires, PointerOver 2])) \<le> 1"
  using hover_exclusive[of False "[PointerOver (1::nat), PointerDown, PointerOut 1, PointerUp, TimeoutFires]" 2]
  by (simp add: run_def initialHover_def onPointerOver_def onPointerOut_def setInteracting_def
        timeoutFires_def applyMarker_def removeMarker_def marked_def)

subsection \<open>Bounds\<close>

lemma accumulate_fst:
  "fst (accumulate bs mn mx) =
     Vector3 (foldl lo_step (vx mn) (map (vx \<circ> fst) bs))
             (foldl lo_step (vy mn) (map (vy \<circ> fst) bs))
             (foldl lo_step (vz mn) (map (vz \<circ> fst) bs))"
  by (induction bs mn mx rule: accumulate.induct) (simp_all add: Minimize_def lo_step_def)

lemma accumulate_snd:
  "snd (accumulate bs mn mx) =
     Vector3 (foldl hi_step (vx mx) (map (vx \<circ> snd) bs))
             (foldl hi_step (vy mx) (map (vy \<circ> snd) bs))
             (foldl hi_step (vz mx) (map (vz \<circ> snd) bs))"
  by (induction bs mn mx rule: accumulate.induct) (simp_all add: Maximize_def hi_step_def)

lemma isFinite_iff: "isFinite v = (\<exists>r. v = Fin r)"
  by (cases v) simp_all

lemma foldl_lo_Fin:
  "\<forall>v \<in> set vs. isFinite v \<Longrightarrow>
   foldl lo_step (Fin a) vs = Fin (Min (insert a (the_real ` set vs)))"
proof (induction vs arbitrary: a)
  case Nil
  then show ?case by simp
next
  case (Cons v vs)
  then obtain r where r: "v = Fin r" by (auto simp: isFinite_iff)
  have "foldl lo_step (Fin a) (v # vs) = foldl lo_step (Fin (min a r)) vs"
    by (simp add: r lo_step_def min_def)
  also have "\<dots> = Fin (Min (insert (min a r) (the_real ` set vs)))"
    using Cons by simp
  also have "Min (insert (min a r) (the_real ` set vs)) = Min (insert a (the_real ` set (v # vs)))"
    by (cases "vs = []") (simp_all add: r min.assoc min.commute min.left_commute)
  finally show ?case .
qed

lemma foldl_hi_Fin:
  "\<forall>v \<in> set vs. isFinite v \<Longrightarrow>
   foldl hi_step (Fin a) vs = Fin (Max (insert a (the_real ` set vs)))"
proof (induction vs arbitrary: a)
  case Nil
  then show ?case by simp
next
  case (Cons v vs)
  then obtain r where r: "v = Fin r" by (auto simp: isFinite_iff)
  have "foldl hi_step (Fin a) (v # vs) = foldl hi_step (Fin (max a r)) vs"
    by (simp add: r hi_step_def js_greater_def max_def)
  also have "\<dots> = Fin (Max (insert (max a r) (the_real ` set vs)))"
    using Cons by simp
  also have "Max (insert (max a r) (the_real ` set vs)) = Max (insert a (the_real ` set (v # vs)))"
    by (cases "vs = []") (simp_all add: r max.assoc max.commute max.left_commute)
  finally show ?case .
qed

lemma foldl_lo_PosInf:
  assumes "xs \<noteq> []" and fin: "\<forall>x \<in> set xs. isFinite (f x)"
  shows "foldl lo_step PosInf (map f xs) = least f xs"
proof (cases xs)
  case Nil
  with assms show ?thesis by simp
next
  case (Cons x ws)
  then obtain r where r: "f x = Fin r" using fin by (auto simp: isFinite_iff)
  have "foldl lo_step PosInf (map f xs) = foldl lo_step (Fin r) (map f ws)"
    by (simp add: Cons r lo_step_def)
  also have "\<dots> = Fin (Min (insert r (the_real ` set (map f ws))))"
    using fin Cons by (intro foldl_lo_Fin) simp
  finally show ?thesis by (simp add: Cons r least_def image_image)
qed

lemma foldl_hi_NegInf:
  assumes "xs \<noteq> []" and fin: "\<forall>x \<in> set xs. isFinite (f x)"
  shows "foldl hi_step NegInf (map f xs) = greatest f xs"
proof (cases xs)
  case Nil
  with assms show ?thesis by simp
next
  case (Cons x ws)
  then obtain r where r: "f x = Fin r" using fin by (auto simp: isFinite_iff)
  have "foldl hi_step NegInf (map f xs) = foldl hi_step (Fin r) (map f ws)"
    by (simp add: Cons r hi_step_def js_greater_def)
  also have "\<dots> = Fin (Max (insert r (the_real ` set (map f ws))))"
    using fin Cons by (intro foldl_hi_Fin) simp
  finally show ?thesis by (simp add: Cons r greatest_def image_image)
qed

text \<open>Over finite boxes the accumulation is the component-wise minimum and maximum.\<close>

lemma accumulate_finite:
  assumes "bs \<noteq> []" and "\<forall>b \<in> set bs. finite3 (fst b) \<and> finite3 (snd b)"
  shows "accumulate bs infinity3 neg_infinity3 =
           (Vector3 (least (vx \<circ> fst) bs) (least (vy \<circ> fst) bs) (least (vz \<circ> fst) bs),
            Vector3 (greatest (vx \<circ> snd) bs) (greatest (vy \<circ> snd) bs) (greatest (vz \<circ> snd) bs))"
proof -
  have "fst (accumulate bs infinity3 neg_infinity3) =
          Vector3 (least (vx \<circ> fst) bs) (least (vy \<circ> fst) bs) (least (vz \<circ> fst) bs)"
    using assms by (simp add: accumulate_fst infinity3_def foldl_lo_PosInf finite3_def)
  moreover have "snd (accumulate bs infinity3 neg_infinity3) =
          Vector3 (greatest (vx \<circ> snd) bs) (greatest (vy \<circ> snd) bs) (greatest (vz \<circ> snd) bs)"
    using assms by (simp add: accumulate_snd neg_infinity3_def foldl_hi_NegInf finite3_def)
  ultimately show ?thesis by (simp add: prod_eq_iff)
qed

lemma bounds_of_iff:
  "bounds_of bs =
     (if bs = [] \<or> \<not> isFinite (vx (fst (accumulate bs infinity3 neg_infinity3)))
               \<or> \<not> isFinite (vx (snd (accumulate bs infinity3 neg_infinity3)))
      then None
      else Some \<lparr>bmin = fst (accumulate bs infinity3 neg_infinity3),
                 bmax = snd (accumulate bs infinity3 neg_infinity3)\<rparr>)"
  by (simp add: bounds_of_def Let_def split_beta)

lemma bounds_of_finite:
  assumes "bs \<noteq> []" and "\<forall>b \<in> set bs. finite3 (fst b) \<and> finite3 (snd b)"
  shows "bounds_of bs =
           Some \<lparr>bmin = Vector3 (least (vx \<circ> fst) bs) (least (vy \<circ> fst) bs) (least (vz \<circ> fst) bs),
                 bmax = Vector3 (greatest (vx \<circ> snd) bs) (greatest (vy \<circ> snd) bs) (greatest (vz \<circ> snd) bs)\<rparr>"
  using assms by (simp add: bounds_of_iff accumulate_finite least_def greatest_def)

text \<open>
  C8, as the code has it.  \<open>computeWorldBounds\<close> and \<open>computeLocalBounds\<close> return
  nothing exactly when there is no mesh or the X component of the accumulated minimum
  or maximum is not finite; otherwise they return the accumulated box, whatever its Y
  and Z components are.  When there is a mesh and all corners are finite the result is
  the component-wise minimum and maximum over the meshes.
\<close>

theorem bounds_none_iff_x_not_finite:
  "(computeWorldBounds ms = None) =
     (ms = [] \<or> \<not> isFinite (vx (fst (accumulate (map (\<lambda>bi. (minimumWorld bi, maximumWorld bi)) ms) infinity3 neg_infinity3)))
             \<or> \<not> isFinite (vx (snd (accumulate (map (\<lambda>bi. (minimumWorld bi, maximumWorld bi)) ms) infinity3 neg_infinity3))))
   \<and> (computeLocalBounds ms = None) =
     (ms = [] \<or> \<not> isFinite (vx (fst (accumulate (map (\<lambda>bi. (minimum bi, maximum bi)) ms) infinity3 neg_infinity3)))
             \<or> \<not> isFinite (vx (snd (accumulate (map (\<lambda>bi. (minimum bi, maximum bi)) ms) infinity3 neg_infinity3))))
   \<and> (\<forall>b. computeWorldBounds ms = Some b \<longrightarrow>
          (bmin b, bmax b) = accumulate (map (\<lambda>bi. (minimumWorld bi, maximumWorld bi)) ms) infinity3 neg_infinity3)
   \<and> (\<forall>b. computeLocalBounds ms = Some b \<longrightarrow>
          (bmin b, bmax b) = accumulate (map (\<lambda>bi. (minimum bi, maximum bi)) ms) infinity3 neg_infinity3)
   \<and> (ms \<noteq> [] \<and> (\<forall>bi \<in> set ms. finite3 (minimumWorld bi) \<and> finite3 (maximumWorld bi)) \<longrightarrow>
        computeWorldBounds ms =
          Some \<lparr>bmin = Vector3 (least (vx \<circ> minimumWorld) ms) (least (vy \<circ> minimumWorld) ms) (least (vz \<circ> minimumWorld) ms),
                bmax = Vector3 (greatest (vx \<circ> maximumWorld) ms) (greatest (vy \<circ> maximumWorld) ms) (greatest (vz \<circ> maximumWorld) ms)\<rparr>)
   \<and> (ms \<noteq> [] \<and> (\<forall>bi \<in> set ms. finite3 (minimum bi) \<and> finite3 (maximum bi)) \<longrightarrow>
        computeLocalBounds ms =
          Some \<lparr>bmin = Vector3 (least (vx \<circ> minimum) ms) (least (vy \<circ> minimum) ms) (least (vz \<circ> minimum) ms),
                bmax = Vector3 (greatest (vx \<circ> maximum) ms) (greatest (vy \<circ> maximum) ms) (greatest (vz \<circ> maximum) ms)\<rparr>)"
proof -
  have w: "ms \<noteq> [] \<and> (\<forall>bi \<in> set ms. finite3 (minimumWorld bi) \<and> finite3 (maximumWorld bi)) \<longrightarrow>
        computeWorldBounds ms =
          Some \<lparr>bmin = Vector3 (least (vx \<circ> minimumWorld) ms) (least (vy \<circ> minimumWorld) ms) (least (vz \<circ> minimumWorld) ms),
                bmax = Vector3 (greatest (vx \<circ> maximumWorld) ms) (greatest (vy \<circ> maximumWorld) ms) (greatest (vz \<circ> maximumWorld) ms)\<rparr>"
    by (auto simp: computeWorldBounds_def bounds_of_finite least_def greatest_def image_image)
  have l: "ms \<noteq> [] \<and> (\<forall>bi \<in> set ms. finite3 (minimum bi) \<and> finite3 (maximum bi)) \<longrightarrow>
        computeLocalBounds ms =
          Some \<lparr>bmin = Vector3 (least (vx \<circ> minimum) ms) (least (vy \<circ> minimum) ms) (least (vz \<circ> minimum) ms),
                bmax = Vector3 (greatest (vx \<circ> maximum) ms) (greatest (vy \<circ> maximum) ms) (greatest (vz \<circ> maximum) ms)\<rparr>"
    by (auto simp: computeLocalBounds_def bounds_of_finite least_def greatest_def image_image)
  have n: "(computeWorldBounds ms = None) =
     (ms = [] \<or> \<not> isFinite (vx (fst (accumulate (map (\<lambda>bi. (minimumWorld bi, maximumWorld bi)) ms) infinity3 neg_infinity3)))
             \<or> \<not> isFinite (vx (snd (accumulate (map (\<lambda>bi. (minimumWorld bi, maximumWorld bi)) ms) infinity3 neg_infinity3))))"
    "(computeLocalBounds ms = None) =
     (ms = [] \<or> \<not> isFinite (vx (fst (accumulate (map (\<lambda>bi. (minimum bi, maximum bi)) ms) infinity3 neg_infinity3)))
             \<or> \<not> isFinite (vx (snd (accumulate (map (\<lambda>bi. (minimum bi, maximum bi)) ms) infinity3 neg_infinity3))))"
    by (simp_all add: computeWorldBounds_def computeLocalBounds_def bounds_of_iff)
  have s: "\<forall>b. computeWorldBounds ms = Some b \<longrightarrow>
          (bmin b, bmax b) = accumulate (map (\<lambda>bi. (minimumWorld bi, maximumWorld bi)) ms) infinity3 neg_infinity3"
     "\<forall>b. computeLocalBounds ms = Some b \<longrightarrow>
          (bmin b, bmax b) = accumulate (map (\<lambda>bi. (minimum bi, maximum bi)) ms) infinity3 neg_infinity3"
    by (auto simp: computeWorldBounds_def computeLocalBounds_def bounds_of_iff split: if_splits)
  from n s w l show ?thesis by blast
qed

theorem bounds_none_iff_x_not_finite_witness:
  "computeWorldBounds
     [\<lparr>minimum = Vector3 (Fin 0) (Fin 0) (Fin 0), maximum = Vector3 (Fin 1) (Fin 1) (Fin 1),
       minimumWorld = Vector3 (Fin 2) (Fin 0) (Fin (- 1)), maximumWorld = Vector3 (Fin 3) (Fin 1) (Fin 0)\<rparr>,
      \<lparr>minimum = Vector3 (Fin 0) (Fin 0) (Fin 0), maximum = Vector3 (Fin 1) (Fin 1) (Fin 1),
       minimumWorld = Vector3 (Fin (- 4)) (Fin 0) (Fin 5), maximumWorld = Vector3 (Fin (- 3)) (Fin 2) (Fin 6)\<rparr>]
   = Some \<lparr>bmin = Vector3 (Fin (- 4)) (Fin 0) (Fin (- 1)), bmax = Vector3 (Fin 3) (Fin 2) (Fin 6)\<rparr>"
  using bounds_none_iff_x_not_finite
    [of "[\<lparr>minimum = Vector3 (Fin 0) (Fin 0) (Fin 0), maximum = Vector3 (Fin 1) (Fin 1) (Fin 1),
       minimumWorld = Vector3 (Fin 2) (Fin 0) (Fin (- 1)), maximumWorld = Vector3 (Fin 3) (Fin 1) (Fin 0)\<rparr>,
      \<lparr>minimum = Vector3 (Fin 0) (Fin 0) (Fin 0), maximum = Vector3 (Fin 1) (Fin 1) (Fin 1),
       minimumWorld = Vector3 (Fin (- 4)) (Fin 0) (Fin 5), maximumWorld = Vector3 (Fin (- 3)) (Fin 2) (Fin 6)\<rparr>]"]
  by (simp add: finite3_def least_def greatest_def)

text \<open>
  C8 as the spec words it fails: a mesh whose box is finite in X and infinite in Y is
  given back with its infinite Y, by both functions.
\<close>

theorem bounds_infinite_y_counterexample:
  "computeLocalBounds
     [\<lparr>minimum = Vector3 (Fin 0) (Fin 0) (Fin 0), maximum = Vector3 (Fin 1) PosInf (Fin 1),
       minimumWorld = Vector3 (Fin 0) (Fin 0) (Fin 0), maximumWorld = Vector3 (Fin 1) PosInf (Fin 1)\<rparr>]
   = Some \<lparr>bmin = Vector3 (Fin 0) (Fin 0) (Fin 0), bmax = Vector3 (Fin 1) PosInf (Fin 1)\<rparr>
   \<and> computeWorldBounds
     [\<lparr>minimum = Vector3 (Fin 0) (Fin 0) (Fin 0), maximum = Vector3 (Fin 1) PosInf (Fin 1),
       minimumWorld = Vector3 (Fin 0) (Fin 0) (Fin 0), maximumWorld = Vector3 (Fin 1) PosInf (Fin 1)\<rparr>]
   = Some \<lparr>bmin = Vector3 (Fin 0) (Fin 0) (Fin 0), bmax = Vector3 (Fin 1) PosInf (Fin 1)\<rparr>
   \<and> \<not> isFinite (vy (Vector3 (Fin 1) PosInf (Fin 1)))"
  by (simp add: computeLocalBounds_def computeWorldBounds_def bounds_of_def Minimize_def Maximize_def
        infinity3_def neg_infinity3_def js_greater_def)

subsection \<open>Snapping\<close>

lemma round_nearest:
  fixes x s :: real
  assumes "0 < s"
  shows "\<bar>of_int \<lfloor>x / s + 1 / 2\<rfloor> * s - x\<bar> \<le> \<bar>of_int k * s - x\<bar>"
proof -
  define q where "q = x / s"
  define n where "n = \<lfloor>q + 1 / 2\<rfloor>"
  have x: "x = q * s" using assms by (simp add: q_def)
  have lo: "of_int n \<le> q + 1 / 2" and hi: "q + 1 / 2 < of_int n + 1"
    unfolding n_def by linarith+
  have "\<bar>of_int n - q\<bar> \<le> \<bar>of_int k - q\<bar>"
  proof (cases "k = n")
    case True
    then show ?thesis by simp
  next
    case False
    then have "k \<le> n - 1 \<or> n + 1 \<le> k" by linarith
    then have "(of_int k :: real) \<le> of_int n - 1 \<or> of_int n + 1 \<le> (of_int k :: real)"
      by (metis of_int_le_iff of_int_diff of_int_add of_int_1)
    with lo hi show ?thesis by linarith
  qed
  then have "\<bar>of_int n - q\<bar> * s \<le> \<bar>of_int k - q\<bar> * s"
    using assms by (simp add: mult_right_mono)
  moreover have scale_abs: "\<bar>a - q\<bar> * s = \<bar>a * s - x\<bar>" for a :: real
  proof -
    have "\<bar>a * s - x\<bar> = \<bar>(a - q) * s\<bar>" by (simp add: x left_diff_distrib)
    also have "\<dots> = \<bar>a - q\<bar> * s" using assms by (simp add: abs_mult)
    finally show ?thesis by simp
  qed
  ultimately show ?thesis by (simp add: n_def q_def)
qed

lemma sqrt_25: "sqrt 25 = 5"
  by (rule real_sqrt_unique) simp_all

text \<open>
  C10, as the code has it.  With a finite camera target and a finite snap distance
  \<open>s\<close>: when \<open>s\<close> is positive the target's X and Z become \<open>round(x / s) * s\<close>, an
  integer multiple of \<open>s\<close> that is at least as close to the old coordinate as any
  other, and Y stays.  The callback never assigns the radius.  If the target lies on the
  grid already the camera is returned as it was; if not, \<open>setTarget\<close> is called once
  and the radius is the one the engine leaves for the rounded target.  When \<open>s\<close> is
  zero or negative the camera is returned as it was.
\<close>

theorem applySnap_rounds:
  "target cam = Vector3 (Fin x) (Fin y) (Fin z) \<Longrightarrow>
   (0 < s \<longrightarrow>
      target (applySnap rebuild (Fin s) cam) =
        Vector3 (Fin (of_int \<lfloor>x / s + 1 / 2\<rfloor> * s)) (Fin y) (Fin (of_int \<lfloor>z / s + 1 / 2\<rfloor> * s))
      \<and> (\<forall>k::int. \<bar>of_int \<lfloor>x / s + 1 / 2\<rfloor> * s - x\<bar> \<le> \<bar>of_int k * s - x\<bar>)
      \<and> (\<forall>k::int. \<bar>of_int \<lfloor>z / s + 1 / 2\<rfloor> * s - z\<bar> \<le> \<bar>of_int k * s - z\<bar>)
      \<and> (of_int \<lfloor>x / s + 1 / 2\<rfloor> * s = x \<and> of_int \<lfloor>z / s + 1 / 2\<rfloor> * s = z \<longrightarrow>
            applySnap rebuild (Fin s) cam = cam)
      \<and> (of_int \<lfloor>x / s + 1 / 2\<rfloor> * s \<noteq> x \<or> of_int \<lfloor>z / s + 1 / 2\<rfloor> * s \<noteq> z \<longrightarrow>
            radius (applySnap rebuild (Fin s) cam) =
              rebuild cam (Vector3 (Fin (of_int \<lfloor>x / s + 1 / 2\<rfloor> * s)) (Fin y)
                                   (Fin (of_int \<lfloor>z / s + 1 / 2\<rfloor> * s)))))
   \<and> (s \<le> 0 \<longrightarrow> applySnap rebuild (Fin s) cam = cam)"
  by (auto simp: applySnap_def Let_def setTarget_def js_eq_def round_nearest)

theorem applySnap_rounds_witness:
  "target (applySnap rebuild0 (Fin (1 / 2)) \<lparr>target = Vector3 (Fin (13 / 10)) (Fin 20) (Fin (- 3 / 4)), radius = Fin 150\<rparr>)
     = Vector3 (Fin (3 / 2)) (Fin 20) (Fin (- 1 / 2))
   \<and> radius (applySnap rebuild0 (Fin (1 / 2)) \<lparr>target = Vector3 (Fin (13 / 10)) (Fin 20) (Fin (- 3 / 4)), radius = Fin 150\<rparr>)
     = rebuild0 \<lparr>target = Vector3 (Fin (13 / 10)) (Fin 20) (Fin (- 3 / 4)), radius = Fin 150\<rparr>
         (Vector3 (Fin (3 / 2)) (Fin 20) (Fin (- 1 / 2)))
   \<and> applySnap rebuild0 (Fin (1 / 2)) \<lparr>target = Vector3 (Fin (3 / 2)) (Fin 20) (Fin (- 1 / 2)), radius = Fin 150\<rparr>
     = \<lparr>target = Vector3 (Fin (3 / 2)) (Fin 20) (Fin (- 1 / 2)), radius = Fin 150\<rparr>
   \<and> applySnap rebuild0 (Fin 0) \<lparr>target = Vector3 (Fin (13 / 10)) (Fin 20) (Fin (- 3 / 4)), radius = Fin 150\<rparr>
     = \<lparr>target = Vector3 (Fin (13 / 10)) (Fin 20) (Fin (- 3 / 4)), radius = Fin 150\<rparr>"
  using applySnap_rounds [of "\<lparr>target = Vector3 (Fin (13 / 10)) (Fin 20) (Fin (- 3 / 4)), radius = Fin 150\<rparr>"
                             "13 / 10" 20 "- 3 / 4" "1 / 2" rebuild0]
        applySnap_rounds [of "\<lparr>target = Vector3 (Fin (3 / 2)) (Fin 20) (Fin (- 1 / 2)), radius = Fin 150\<rparr>"
                             "3 / 2" 20 "- 1 / 2" "1 / 2" rebuild0]
        applySnap_rounds [of "\<lparr>target = Vector3 (Fin (13 / 10)) (Fin 20) (Fin (- 3 / 4)), radius = Fin 150\<rparr>"
                             "13 / 10" 20 "- 3 / 4" 0 rebuild0]
  by simp

text \<open>
  C10 as the spec words it fails for the radius.  Take a camera at (3, 0, 4) that stays
  where it is while its target moves, looking at (3, 0, 0) from the distance 4, and a
  snap distance of 8.  The callback moves the target to (0, 0, 0), and the radius left
  by \<open>setTarget\<close> is the distance 5 from the camera to the new target.
\<close>

theorem snap_radius_counterexample:
  "target (applySnap (stayingAt (Vector3 (Fin 3) (Fin 0) (Fin 4))) (Fin 8)
             \<lparr>target = Vector3 (Fin 3) (Fin 0) (Fin 0), radius = Fin 4\<rparr>)
     = Vector3 (Fin 0) (Fin 0) (Fin 0)
   \<and> radius (applySnap (stayingAt (Vector3 (Fin 3) (Fin 0) (Fin 4))) (Fin 8)
               \<lparr>target = Vector3 (Fin 3) (Fin 0) (Fin 0), radius = Fin 4\<rparr>)
     = Fin 5
   \<and> stayingAt (Vector3 (Fin 3) (Fin 0) (Fin 4)) \<lparr>target = Vector3 (Fin 3) (Fin 0) (Fin 0), radius = Fin 4\<rparr>
        (Vector3 (Fin 3) (Fin 0) (Fin 0))
     = Fin 4"
proof -
  have r: "\<lfloor>(3::real) / 8 + 1 / 2\<rfloor> = 0" by linarith
  have four: "sqrt 16 = 4" by (rule real_sqrt_unique) simp_all
  show ?thesis
    by (simp add: applySnap_def Let_def setTarget_def js_eq_def stayingAt_def Vector3_length_def
          Vector3_subtract_def js_sub_def r sqrt_25 four)
qed

subsection \<open>UV repair\<close>

lemma scan_extents_fold:
  "scan_extents ps e =
     \<lparr>minX = foldl lo_step (minX e) (map vx ps), maxX = foldl hi_step (maxX e) (map vx ps),
      minZ = foldl lo_step (minZ e) (map vz ps), maxZ = foldl hi_step (maxZ e) (map vz ps)\<rparr>"
  by (induction ps e rule: scan_extents.induct) (simp_all add: lo_step_def hi_step_def)

lemma scan_extents_finite:
  assumes "ps \<noteq> []" and "\<forall>p \<in> set ps. finite3 p"
  shows "scan_extents ps initial_extents =
           \<lparr>minX = Fin (Min (xr ` set ps)), maxX = Fin (Max (xr ` set ps)),
            minZ = Fin (Min (zr ` set ps)), maxZ = Fin (Max (zr ` set ps))\<rparr>"
proof -
  have fx: "\<forall>p \<in> set ps. isFinite (vx p)" and fz: "\<forall>p \<in> set ps. isFinite (vz p)"
    using assms(2) by (simp_all add: finite3_def)
  show ?thesis
    using foldl_lo_PosInf[OF assms(1) fx] foldl_hi_NegInf[OF assms(1) fx]
          foldl_lo_PosInf[OF assms(1) fz] foldl_hi_NegInf[OF assms(1) fz]
    by (simp add: scan_extents_fold initial_extents_def least_def greatest_def
          xr_def[abs_def] zr_def[abs_def])
qed

lemma js_sub_Fin: "js_sub (Fin a) (Fin b) = Fin (a - b)"
  by (simp add: js_sub_def)

lemma ranges_finite:
  assumes "ps \<noteq> []" and "\<forall>p \<in> set ps. finite3 p"
  shows "rangeX (scan_extents ps initial_extents) = Fin (divisor xr ps)"
    and "rangeZ (scan_extents ps initial_extents) = Fin (divisor zr ps)"
  using assms
  by (simp_all add: scan_extents_finite rangeX_def rangeZ_def js_or_def js_sub_Fin divisor_def extent_def)

lemma divisor_nonzero: "divisor f ps \<noteq> 0"
  by (simp add: divisor_def)

lemma vertexUV_finite:
  assumes "ps \<noteq> []" and "\<forall>p \<in> set ps. finite3 p" and "q \<in> set ps"
  shows "vertexUV (scan_extents ps initial_extents) q = [Fin (planar xr ps q), Fin (planar zr ps q)]"
proof -
  from assms obtain a b where q: "vx q = Fin a" "vz q = Fin b"
    by (auto simp: finite3_def isFinite_iff)
  have e: "minX (scan_extents ps initial_extents) = Fin (Min (xr ` set ps))"
          "minZ (scan_extents ps initial_extents) = Fin (Min (zr ` set ps))"
    using assms(1,2) by (simp_all add: scan_extents_finite)
  have r: "rangeX (scan_extents ps initial_extents) = Fin (divisor xr ps)"
          "rangeZ (scan_extents ps initial_extents) = Fin (divisor zr ps)"
    using assms(1,2) by (rule ranges_finite)+
  show ?thesis
    unfolding vertexUV_def e r q js_sub_Fin
    by (simp add: divisor_nonzero planar_def xr_def zr_def q)
qed

text \<open>On finite positions the second loop emits the planar projection.\<close>

lemma newUVs_finite:
  assumes "\<forall>p \<in> set ps. finite3 p"
  shows "newUVs ps = concat (map (\<lambda>p. [Fin (planar xr ps p), Fin (planar zr ps p)]) ps)"
proof (cases "ps = []")
  case True
  then show ?thesis by (simp add: newUVs_def)
next
  case False
  have "map (vertexUV (scan_extents ps initial_extents)) ps =
        map (\<lambda>p. [Fin (planar xr ps p), Fin (planar zr ps p)]) ps"
    using False assms by (simp add: vertexUV_finite)
  then show ?thesis by (simp only: newUVs_def)
qed

lemma planar_range:
  assumes "q \<in> set ps"
  shows "0 \<le> planar f ps q" and "planar f ps q \<le> 1"
proof -
  have lo: "Min (f ` set ps) \<le> f q" and hi: "f q \<le> Max (f ` set ps)"
    using assms by simp_all
  then have ext: "0 \<le> extent f ps" by (simp add: extent_def)
  have pos: "0 < divisor f ps" using ext by (simp add: divisor_def)
  show "0 \<le> planar f ps q" using lo pos by (simp add: planar_def)
  have "f q - Min (f ` set ps) \<le> divisor f ps"
    using lo hi by (simp add: divisor_def extent_def)
  then show "planar f ps q \<le> 1" using pos by (simp add: planar_def)
qed

lemma planar_at_min: "f q = Min (f ` set ps) \<Longrightarrow> planar f ps q = 0"
  by (simp add: planar_def)

lemma planar_at_max:
  "f q = Max (f ` set ps) \<Longrightarrow> planar f ps q = (if extent f ps = 0 then 0 else 1)"
  by (simp add: planar_def divisor_def extent_def)


lemma setVerticesData_twice:
  "setVerticesData (setVerticesData m k a) k b = setVerticesData m k b"
  by (simp add: setVerticesData_def)

lemma setVerticesData_get: "getVerticesData (setVerticesData m k a) k = Some a"
  by (simp add: setVerticesData_def getVerticesData_def)

lemma setVerticesData_positions: "positions (setVerticesData m k a) = positions m"
  by (simp add: setVerticesData_def)

lemma needsFix_None: "needsFix None"
  by (simp add: needsFix_def)

text \<open>What the repair does when it runs, and when it does not.\<close>

lemma repairUVs_fix:
  assumes "positions mesh = Some ps" and "needsFix (adoptedUVs mesh)"
  shows "repairUVs mesh = setVerticesData mesh UVKind (newUVs ps)"
  using assms
  by (auto simp: repairUVs_def adoptedUVs_def isVerticesDataPresent_Position_def
        setVerticesData_twice setVerticesData_positions needsFix_None Let_def
        split: option.splits)


lemma repairUVs_runs:
  assumes "positions mesh = Some ps" and "needsFix (adoptedUVs mesh)"
  shows "getVerticesData (repairUVs mesh) UVKind = Some (newUVs ps)"
  using assms by (simp add: repairUVs_fix setVerticesData_get)

text \<open>
  C2, as the code has it.  When the repair runs on a mesh (its positions are present
  and the texture coordinates it looks at are absent or invalid) and the positions are
  finite, the primary channel holds, vertex by vertex, \<open>u = (x - minX) / rangeX\<close> and
  \<open>v = (z - minZ) / rangeZ\<close>, where the range of an axis is its extent
  \<open>max - min\<close> when that is not zero and 1 when it is zero.  An extent between 0 and 1
  is used as it is.
\<close>

theorem repair_projection:
  "positions mesh = Some ps \<Longrightarrow> \<forall>p \<in> set ps. finite3 p \<Longrightarrow> needsFix (adoptedUVs mesh) \<Longrightarrow>
   getVerticesData (repairUVs mesh) UVKind =
     Some (concat (map (\<lambda>p. [Fin ((xr p - Min (xr ` set ps)) / divisor xr ps),
                               Fin ((zr p - Min (zr ` set ps)) / divisor zr ps)]) ps))
   \<and> divisor xr ps = (if Max (xr ` set ps) - Min (xr ` set ps) = 0 then 1
                       else Max (xr ` set ps) - Min (xr ` set ps))
   \<and> divisor zr ps = (if Max (zr ` set ps) - Min (zr ` set ps) = 0 then 1
                       else Max (zr ` set ps) - Min (zr ` set ps))"
  using newUVs_finite[of ps]
  by (simp add: repairUVs_runs planar_def divisor_def extent_def)

theorem repair_projection_witness:
  "getVerticesData
     (repairUVs \<lparr>totalVertices = 2,
                 positions = Some [Vector3 (Fin 0) (Fin 7) (Fin 0), Vector3 (Fin 10) (Fin 7) (Fin 5)],
                 uvData = (\<lambda>k. None),
                 boundingBox = \<lparr>minimum = Vector3 (Fin 0) (Fin 7) (Fin 0), maximum = Vector3 (Fin 10) (Fin 7) (Fin 5),
                                minimumWorld = Vector3 (Fin 0) (Fin 7) (Fin 0), maximumWorld = Vector3 (Fin 10) (Fin 7) (Fin 5)\<rparr>,
                 isPickable = True, mesh_node = new_TransformNode\<rparr>) UVKind
   = Some [Fin 0, Fin 0, Fin 1, Fin 1]"
  using repair_projection
    [of "\<lparr>totalVertices = 2,
          positions = Some [Vector3 (Fin 0) (Fin 7) (Fin 0), Vector3 (Fin 10) (Fin 7) (Fin 5)],
          uvData = (\<lambda>k. None),
          boundingBox = \<lparr>minimum = Vector3 (Fin 0) (Fin 7) (Fin 0), maximum = Vector3 (Fin 10) (Fin 7) (Fin 5),
                         minimumWorld = Vector3 (Fin 0) (Fin 7) (Fin 0), maximumWorld = Vector3 (Fin 10) (Fin 7) (Fin 5)\<rparr>,
          isPickable = True, mesh_node = new_TransformNode\<rparr>"
        "[Vector3 (Fin 0) (Fin 7) (Fin 0), Vector3 (Fin 10) (Fin 7) (Fin 5)]"]
  by (simp add: finite3_def needsFix_def adoptedUVs_def getVerticesData_def UV_KIND_ORDER_def
        xr_def zr_def divisor_def extent_def)

text \<open>
  C2 as the spec words it fails: on an axis of extent one half the code divides by one
  half, so the vertex at the far end gets 1, where dividing by \<open>max(extent, 1)\<close> would
  give one half.
\<close>

theorem repair_small_extent_counterexample:
  "getVerticesData
     (repairUVs \<lparr>totalVertices = 2,
                 positions = Some [Vector3 (Fin 0) (Fin 0) (Fin 0), Vector3 (Fin (1 / 2)) (Fin 0) (Fin (1 / 2))],
                 uvData = (\<lambda>k. None),
                 boundingBox = \<lparr>minimum = Vector3 (Fin 0) (Fin 0) (Fin 0), maximum = Vector3 (Fin (1 / 2)) (Fin 0) (Fin (1 / 2)),
                                minimumWorld = Vector3 (Fin 0) (Fin 0) (Fin 0), maximumWorld = Vector3 (Fin (1 / 2)) (Fin 0) (Fin (1 / 2))\<rparr>,
                 isPickable = True, mesh_node = new_TransformNode\<rparr>) UVKind
   = Some [Fin 0, Fin 0, Fin 1, Fin 1]
   \<and> Fin ((1 / 2 - 0) / max (1 / 2 - 0) 1) \<noteq> Fin 1"
  by (simp add: repairUVs_def isVerticesDataPresent_Position_def getVerticesData_def
        setVerticesData_def UV_KIND_ORDER_def needsFix_def newUVs_def vertexUV_def
        initial_extents_def rangeX_def rangeZ_def js_or_def js_sub_def js_greater_def)

text \<open>
  C3, as the code has it.  For finite positions every synthesized component is a finite
  number between 0 and 1; a vertex at the minimum X gets \<open>u = 0\<close>; a vertex at the
  maximum X gets \<open>u = 1\<close> when the X extent is not zero and \<open>u = 0\<close> when all
  vertices share one X; likewise for \<open>v\<close> and Z.
\<close>

theorem newUVs_range:
  "\<forall>p \<in> set ps. finite3 p \<Longrightarrow>
   newUVs ps = concat (map (\<lambda>p. [Fin (planar xr ps p), Fin (planar zr ps p)]) ps)
   \<and> (\<forall>c \<in> set (newUVs ps). \<exists>r. c = Fin r \<and> 0 \<le> r \<and> r \<le> 1)
   \<and> (\<forall>q \<in> set ps.
         (xr q = Min (xr ` set ps) \<longrightarrow> planar xr ps q = 0)
       \<and> (xr q = Max (xr ` set ps) \<longrightarrow>
            planar xr ps q = (if Max (xr ` set ps) = Min (xr ` set ps) then 0 else 1))
       \<and> (zr q = Min (zr ` set ps) \<longrightarrow> planar zr ps q = 0)
       \<and> (zr q = Max (zr ` set ps) \<longrightarrow>
            planar zr ps q = (if Max (zr ` set ps) = Min (zr ` set ps) then 0 else 1)))"
proof -
  assume fin: "\<forall>p \<in> set ps. finite3 p"
  have eq: "newUVs ps = concat (map (\<lambda>p. [Fin (planar xr ps p), Fin (planar zr ps p)]) ps)"
    by (rule newUVs_finite[OF fin])
  have rng: "\<forall>c \<in> set (newUVs ps). \<exists>r. c = Fin r \<and> 0 \<le> r \<and> r \<le> 1"
    unfolding eq using planar_range by auto
  have ends: "\<forall>q \<in> set ps.
         (xr q = Min (xr ` set ps) \<longrightarrow> planar xr ps q = 0)
       \<and> (xr q = Max (xr ` set ps) \<longrightarrow>
            planar xr ps q = (if Max (xr ` set ps) = Min (xr ` set ps) then 0 else 1))
       \<and> (zr q = Min (zr ` set ps) \<longrightarrow> planar zr ps q = 0)
       \<and> (zr q = Max (zr ` set ps) \<longrightarrow>
            planar zr ps q = (if Max (zr ` set ps) = Min (zr ` set ps) then 0 else 1))"
    by (simp add: planar_at_min planar_at_max extent_def)
  from eq rng ends show ?thesis by blast
qed

theorem newUVs_range_witness:
  "newUVs [Vector3 (Fin 0) (Fin 7) (Fin 0), Vector3 (Fin 4) (Fin 7) (Fin 1), Vector3 (Fin 10) (Fin 7) (Fin 5)]
     = [Fin 0, Fin 0, Fin (2 / 5), Fin (1 / 5), Fin 1, Fin 1]"
  using newUVs_range
    [of "[Vector3 (Fin 0) (Fin 7) (Fin 0), Vector3 (Fin 4) (Fin 7) (Fin 1), Vector3 (Fin 10) (Fin 7) (Fin 5)]"]
  by (simp add: finite3_def planar_def divisor_def extent_def xr_def zr_def)

text \<open>
  C3 as the spec words it fails on a flat axis: when every vertex has the same X, a
  vertex at the maximum X gets \<open>u = 0\<close>, not 1.
\<close>

theorem newUVs_flat_axis_counterexample:
  "newUVs [Vector3 (Fin 0) (Fin 0) (Fin 0), Vector3 (Fin 0) (Fin 0) (Fin 1)]
     = [Fin 0, Fin 0, Fin 0, Fin 1]
   \<and> maxX (scan_extents [Vector3 (Fin 0) (Fin 0) (Fin 0), Vector3 (Fin 0) (Fin 0) (Fin 1)] initial_extents)
     = vx (Vector3 (Fin 0) (Fin 0) (Fin 1))"
  by (simp add: newUVs_def vertexUV_def initial_extents_def rangeX_def rangeZ_def js_or_def
        js_sub_def js_greater_def)





subsection \<open>Loading and registering\<close>

lemma canvasNodes_eq:
  "canvasNodes cfg ms =
     (let mn = fst (accumulate (map worldCorners ms) infinity3 neg_infinity3);
          mx = snd (accumulate (map worldCorners ms) infinity3 neg_infinity3);
          rawCenter = Vector3_scale (Vector3_add mn mx) (Fin (1 / 2));
          scl = js_div (targetSize cfg) (rawMaxDim (map worldCorners ms))
      in (new_TransformNode
            \<lparr>node_position := Vector3 (fst (anchorPosition cfg)) (fst (snd (anchorPosition cfg)))
                                       (snd (snd (anchorPosition cfg))),
             node_rotation := Vector3 (fst (anchorRotation cfg)) (fst (snd (anchorRotation cfg)))
                                       (snd (snd (anchorRotation cfg)))\<rparr>,
          new_TransformNode\<lparr>node_scaling := Vector3 scl scl scl\<rparr>,
          new_TransformNode
            \<lparr>node_position := Vector3 (js_neg (vx rawCenter)) (js_neg (vy mn)) (js_neg (vz rawCenter))\<rparr>))"
  by (simp add: canvasNodes_def targetSize_def anchorPosition_def anchorRotation_def rawMaxDim_def
        Let_def split_beta)

lemma loadModel_registers:
  assumes "load (assetPath cfg) = Some c" and "filter hasGeometry (meshes c) \<noteq> []"
  shows "loadModel load cfg reg = AList.update (name cfg) (canvasEntry cfg c) reg"
  using assms by (simp add: loadModel_def canvasEntry_def Let_def split_beta)

lemma loadModel_lookup:
  assumes "load (assetPath cfg) = Some c" and "filter hasGeometry (meshes c) \<noteq> []"
  shows "map_of (loadModel load cfg reg) (name cfg) = Some (canvasEntry cfg c)"
  using assms by (simp add: loadModel_registers update_conv')

lemma scaler_scaling:
  "node_scaling (hd (descendants (canvasEntry cfg c))) =
     (let scl = js_div (targetSize cfg) (rawMaxDim (map worldCorners (filter hasGeometry (meshes c))))
      in Vector3 scl scl scl)"
  by (simp add: canvasEntry_def canvasNodes_eq Let_def)

text \<open>
  C5, as the code has it.  Registering a second descriptor under a name that is already
  registered raises nothing.  The CanvasHost loader replaces the entry: the name then
  maps to the second descriptor's anchor, exactly as if nothing had been registered
  before, and the registry keeps its names.  The SceneManager loader skips the second
  descriptor: the manager, its registry and its reported errors are unchanged.
\<close>

theorem duplicate_name_replaces_or_skips:
  "name cfg2 = name cfg1 \<Longrightarrow> map_of reg (name cfg1) = Some e1 \<Longrightarrow>
   (load (assetPath cfg2) = Some c \<and> filter hasGeometry (meshes c) \<noteq> [] \<longrightarrow>
      map_of (loadModel load cfg2 reg) (name cfg1) = Some (canvasEntry cfg2 c)
      \<and> map_of (loadModel load cfg2 reg) (name cfg1) = map_of (loadModel load cfg2 []) (name cfg2)
      \<and> map fst (loadModel load cfg2 reg) = map fst reg)
   \<and> (sm_anchors sm = reg \<longrightarrow> SceneManager_loadModel load cfg2 sm = sm)"
proof -
  assume n: "name cfg2 = name cfg1" and e1: "map_of reg (name cfg1) = Some e1"
  have k: "name cfg1 \<in> fst ` set reg"
    using e1 by (metis domI dom_map_of_conv_image_fst)
  have keys: "map fst (AList.update (name cfg1) v reg) = map fst reg" for v
    using k by (induction reg) auto
  show ?thesis
    using n e1 keys
    by (auto simp: loadModel_registers update_conv' SceneManager_loadModel_def)
qed

lemma plain_names:
  "''building'' \<notin> set Object_prototype_keys" "''bridge'' \<notin> set Object_prototype_keys"
  "''cube'' \<notin> set Object_prototype_keys"
  by (simp_all add: Object_prototype_keys_def)

lemma anchor_position:
  "node_position (anchor (canvasEntry cfg c)) =
     Vector3 (fst (anchorPosition cfg)) (fst (snd (anchorPosition cfg))) (snd (snd (anchorPosition cfg)))"
  by (simp add: canvasEntry_def canvasNodes_eq Let_def)

lemma always_geometry:
  "hasGeometry (boxMesh lo hi)" "always ms p = Some \<lparr>meshes = ms\<rparr>"
  by (simp_all add: hasGeometry_def boxMesh_def always_def)

theorem duplicate_name_replaces_or_skips_witness:
  "map_of (loadModel (always [cube]) (descriptor ''building'' (Fin 30, Fin 0, Fin 0) (Fin 0, Fin 0, Fin 0) 40)
             (loadModel (always [cube]) (descriptor ''building'' (Fin (- 30), Fin 0, Fin 0) (Fin 0, Fin 0, Fin 0) 40) []))
     ''building''
   = Some (canvasEntry (descriptor ''building'' (Fin 30, Fin 0, Fin 0) (Fin 0, Fin 0, Fin 0) 40) \<lparr>meshes = [cube]\<rparr>)
   \<and> SceneManager_loadModel (always [cube]) (descriptor ''building'' (Fin 30, Fin 0, Fin 0) (Fin 0, Fin 0, Fin 0) 40)
        (manager0\<lparr>sm_anchors := loadModel (always [cube])
                     (descriptor ''building'' (Fin (- 30), Fin 0, Fin 0) (Fin 0, Fin 0, Fin 0) 40) []\<rparr>)
     = manager0\<lparr>sm_anchors := loadModel (always [cube])
                     (descriptor ''building'' (Fin (- 30), Fin 0, Fin 0) (Fin 0, Fin 0, Fin 0) 40) []\<rparr>"
proof -
  let ?A = "descriptor ''building'' (Fin (- 30), Fin 0, Fin 0) (Fin 0, Fin 0, Fin 0) 40"
  let ?B = "descriptor ''building'' (Fin 30, Fin 0, Fin 0) (Fin 0, Fin 0, Fin 0) 40"
  let ?C = "\<lparr>meshes = [cube]\<rparr>"
  let ?reg = "loadModel (always [cube]) ?A []"
  have geo: "filter hasGeometry (meshes ?C) \<noteq> []"
    by (simp add: always_geometry cube_def)
  have nm: "name ?B = name ?A" "name ?A = ''building''"
    by (simp_all add: descriptor_def)
  have reg: "map_of ?reg (name ?A) = Some (canvasEntry ?A ?C)"
    by (rule loadModel_lookup[OF always_geometry(2) geo])
  have ld: "always [cube] (assetPath ?B) = Some ?C \<and> filter hasGeometry (meshes ?C) \<noteq> []"
    using geo by (simp add: always_geometry)
  show ?thesis
    using duplicate_name_replaces_or_skips
            [OF nm(1) reg, of "always [cube]" ?C "manager0\<lparr>sm_anchors := ?reg\<rparr>"] ld
    by (simp add: nm(2))
qed

text \<open>
  C5 as the spec words it fails: two descriptors named \<open>building\<close> load without any
  error.  The CanvasHost loader ends with one anchor, at the second descriptor's
  position; the SceneManager loader ends with one anchor, at the first descriptor's
  position, and has reported nothing.
\<close>

theorem duplicate_name_counterexample:
  "map (\<lambda>e. (fst e, node_position (anchor (snd e))))
     (fst (loadModels rebuild0 (always [cube])
             [descriptor ''building'' (Fin (- 30), Fin 0, Fin 0) (Fin 0, Fin 0, Fin 0) 40,
              descriptor ''building'' (Fin 30, Fin 0, Fin 0) (Fin 0, Fin 0, Fin 0) 40]
             camera0 []))
   = [(''building'', Vector3 (Fin 30) (Fin 0) (Fin 0))]
   \<and> map (\<lambda>e. (fst e, node_position (anchor (snd e))))
     (sm_anchors (SceneManager_loadModels rebuild0 (always [cube])
             [descriptor ''building'' (Fin (- 30), Fin 0, Fin 0) (Fin 0, Fin 0, Fin 0) 40,
              descriptor ''building'' (Fin 30, Fin 0, Fin 0) (Fin 0, Fin 0, Fin 0) 40]
             manager0))
   = [(''building'', Vector3 (Fin (- 30)) (Fin 0) (Fin 0))]
   \<and> sm_reported (SceneManager_loadModels rebuild0 (always [cube])
             [descriptor ''building'' (Fin (- 30), Fin 0, Fin 0) (Fin 0, Fin 0, Fin 0) 40,
              descriptor ''building'' (Fin 30, Fin 0, Fin 0) (Fin 0, Fin 0, Fin 0) 40]
             manager0)
   = []"
proof -
  have canvas: "map (\<lambda>e. (fst e, node_position (anchor (snd e))))
     (fst (loadModels rebuild0 (always [cube])
             [descriptor ''building'' (Fin (- 30), Fin 0, Fin 0) (Fin 0, Fin 0, Fin 0) 40,
              descriptor ''building'' (Fin 30, Fin 0, Fin 0) (Fin 0, Fin 0, Fin 0) 40]
             camera0 []))
   = [(''building'', Vector3 (Fin 30) (Fin 0) (Fin 0))]"
    by (simp add: loadModels_def Let_def loadModel_registers always_geometry cube_def
          anchor_position)
       (simp add: descriptor_def anchorPosition_def)
  have first: "SceneManager_loadModel (always [cube])
                 (descriptor ''building'' (Fin (- 30), Fin 0, Fin 0) (Fin 0, Fin 0, Fin 0) 40) manager0
               = manager0\<lparr>sm_anchors :=
                   [(''building'',
                     \<lparr>anchor = fst (managerNodes (descriptor ''building'' (Fin (- 30), Fin 0, Fin 0) (Fin 0, Fin 0, Fin 0) 40)
                                     \<lparr>bmin = Vector3 (Fin (- 1)) (Fin (- 1)) (Fin (- 1)), bmax = Vector3 (Fin 1) (Fin 1) (Fin 1)\<rparr>),
                      descendants = [snd (managerNodes (descriptor ''building'' (Fin (- 30), Fin 0, Fin 0) (Fin 0, Fin 0, Fin 0) 40)
                                     \<lparr>bmin = Vector3 (Fin (- 1)) (Fin (- 1)) (Fin (- 1)), bmax = Vector3 (Fin 1) (Fin 1) (Fin 1)\<rparr>)],
                      content = [cube]\<rparr>)]\<rparr>"
    by (simp add: SceneManager_loadModel_def manager0_def always_def computeLocalBounds_def
          bounds_of_def cube_def boxMesh_def Minimize_def Maximize_def infinity3_def
          neg_infinity3_def js_greater_def split_beta descriptor_def plain_names)
  have manager: "SceneManager_loadModels rebuild0 (always [cube])
             [descriptor ''building'' (Fin (- 30), Fin 0, Fin 0) (Fin 0, Fin 0, Fin 0) 40,
              descriptor ''building'' (Fin 30, Fin 0, Fin 0) (Fin 0, Fin 0, Fin 0) 40]
             manager0
        = (SceneManager_loadModel (always [cube])
                 (descriptor ''building'' (Fin (- 30), Fin 0, Fin 0) (Fin 0, Fin 0, Fin 0) 40) manager0)
          \<lparr>sm_camera := frameAll rebuild0 (map (\<lambda>e. managerChildMeshes (snd e))
               (sm_anchors (SceneManager_loadModel (always [cube])
                 (descriptor ''building'' (Fin (- 30), Fin 0, Fin 0) (Fin 0, Fin 0, Fin 0) 40) manager0)))
               (Some camera0)\<rparr>"
    unfolding SceneManager_loadModels_def
    by (simp add: Let_def first) (simp add: SceneManager_loadModel_def manager0_def descriptor_def plain_names)
  have pos: "node_position (fst (managerNodes (descriptor ''building'' (Fin (- 30), Fin 0, Fin 0) (Fin 0, Fin 0, Fin 0) 40) b))
             = Vector3 (Fin (- 30)) (Fin 0) (Fin 0)" for b
    by (simp add: managerNodes_def descriptor_def Let_def split_beta)
  show ?thesis
    unfolding manager
    using canvas by (simp add: first pos) (simp add: manager0_def)
qed

text \<open>
  C6, as the code has it.  Whenever the asset loads and has a mesh with geometry, the
  CanvasHost loader registers an anchor under the descriptor's name, and the scale node
  below it gets \<open>targetSize / maxDim\<close> on all three axes, whatever \<open>maxDim\<close> is.
  In particular, when \<open>maxDim\<close> is zero and the target size is positive, the anchor is
  registered and the scale applied is \<open>Infinity\<close>.
\<close>

theorem degenerate_model_is_registered:
  "load (assetPath cfg) = Some c \<Longrightarrow> filter hasGeometry (meshes c) \<noteq> [] \<Longrightarrow>
   map_of (loadModel load cfg reg) (name cfg) = Some (canvasEntry cfg c)
   \<and> node_scaling (hd (descendants (canvasEntry cfg c))) =
       (let scl = js_div (targetSize cfg) (rawMaxDim (map worldCorners (filter hasGeometry (meshes c))))
        in Vector3 scl scl scl)
   \<and> (rawMaxDim (map worldCorners (filter hasGeometry (meshes c))) = Fin 0
        \<and> targetSize cfg = Fin t \<and> 0 < t \<longrightarrow>
        node_scaling (hd (descendants (canvasEntry cfg c))) = Vector3 PosInf PosInf PosInf)"
  by (simp add: loadModel_lookup scaler_scaling Let_def signed_inf_def)

lemma point_maxDim: "rawMaxDim (map worldCorners [point]) = Fin 0"
  by (simp add: rawMaxDim_def point_def boxMesh_def worldCorners_def Minimize_def Maximize_def
        infinity3_def neg_infinity3_def js_greater_def Vector3_subtract_def js_sub_def
        Math_max3_def)

theorem degenerate_model_is_registered_witness:
  "map_of (loadModel (always [point]) (descriptor ''dot'' (Fin 0, Fin 0, Fin 0) (Fin 0, Fin 0, Fin 0) 40) [])
          (name (descriptor ''dot'' (Fin 0, Fin 0, Fin 0) (Fin 0, Fin 0, Fin 0) 40))
     = Some (canvasEntry (descriptor ''dot'' (Fin 0, Fin 0, Fin 0) (Fin 0, Fin 0, Fin 0) 40) \<lparr>meshes = [point]\<rparr>)
   \<and> node_scaling (hd (descendants
        (canvasEntry (descriptor ''dot'' (Fin 0, Fin 0, Fin 0) (Fin 0, Fin 0, Fin 0) 40) \<lparr>meshes = [point]\<rparr>)))
     = Vector3 PosInf PosInf PosInf"
proof -
  have geo: "filter hasGeometry (meshes \<lparr>meshes = [point]\<rparr>) \<noteq> []"
    by (simp add: always_geometry point_def)
  have dim: "rawMaxDim (map worldCorners (filter hasGeometry (meshes \<lparr>meshes = [point]\<rparr>))) = Fin 0"
    using point_maxDim by (simp add: always_geometry point_def)
  have size: "targetSize (descriptor ''dot'' (Fin 0, Fin 0, Fin 0) (Fin 0, Fin 0, Fin 0) 40) = Fin 40"
    by (simp add: targetSize_def descriptor_def)
  have ld: "always [point] (assetPath (descriptor ''dot'' (Fin 0, Fin 0, Fin 0) (Fin 0, Fin 0, Fin 0) 40))
              = Some \<lparr>meshes = [point]\<rparr>"
    by (rule always_geometry(2))
  show ?thesis
    using degenerate_model_is_registered
            [of "always [point]" "descriptor ''dot'' (Fin 0, Fin 0, Fin 0) (Fin 0, Fin 0, Fin 0) 40"
                "\<lparr>meshes = [point]\<rparr>" "[]" 40, OF ld geo] dim size
    by (simp add: Let_def signed_inf_def)
qed

text \<open>
  C6 as the spec words it fails: an asset whose only mesh is a single point loads
  without error, its anchor is registered, and its scale node is scaled by
  \<open>Infinity\<close>.
\<close>

theorem degenerate_model_counterexample:
  "map (\<lambda>e. (fst e, node_scaling (hd (descendants (snd e)))))
     (fst (loadModels rebuild0 (always [point])
             [descriptor ''dot'' (Fin 0, Fin 0, Fin 0) (Fin 0, Fin 0, Fin 0) 40] camera0 []))
   = [(''dot'', Vector3 PosInf PosInf PosInf)]
   \<and> rawMaxDim (map worldCorners (filter hasGeometry [point])) = Fin 0"
proof -
  have geo: "hasGeometry point"
    by (simp add: always_geometry point_def)
  have dim: "rawMaxDim [worldCorners point] = Fin 0"
    using point_maxDim by simp
  have size: "targetSize (descriptor ''dot'' (Fin 0, Fin 0, Fin 0) (Fin 0, Fin 0, Fin 0) 40) = Fin 40"
    by (simp add: targetSize_def descriptor_def)
  show ?thesis
    by (simp add: loadModels_def Let_def loadModel_registers always_geometry(2) geo scaler_scaling
          dim size signed_inf_def)
       (simp add: descriptor_def)
qed

subsection \<open>Placement in world space\<close>

lemma js_arith_Fin:
  "js_add (Fin a) (Fin b) = Fin (a + b)"
  "js_mul (Fin a) (Fin b) = Fin (a * b)"
  "js_neg (Fin a) = Fin (- a)"
  by simp_all






























subsection \<open>Normalization\<close>

















subsection \<open>Framing\<close>

















end
